theory Spec2Isabelle
  imports Complex_Main "HOL-Library.Log_Nat"
begin

section \<open>Exceptions\<close>

text \<open>
  The exception classes that the data-access layer can meet: Python's own
  (\<open>AttributeError\<close>, \<open>KeyError\<close>, \<open>ValueError\<close>), the driver's client-side errors
  (\<open>InterfaceError\<close>, \<open>DataError\<close>) and the server's errors by SQLSTATE class.
  \<open>CancelledError\<close> stands for the classes that derive from \<open>BaseException\<close> only.
  An exception value carries its class and its message text (what \<open>str(e)\<close> returns).
\<close>

datatype exn_class =
    AttributeError
  | KeyError
  | ValueError
  | InterfaceError
  | DataError
  | UniqueViolationError
  | ForeignKeyViolationError
  | NotNullViolationError
  | CheckViolationError
  | NumericValueOutOfRangeError
  | StringDataRightTruncationError
  | CharacterNotInRepertoireError
  | UndefinedTableError
  | UndefinedFunctionError
  | CancelledError

datatype exn = Exn exn_class string

fun class_of :: "exn \<Rightarrow> exn_class" where
  "class_of (Exn c m) = c"

fun str_exn :: "exn \<Rightarrow> string" where
  "str_exn (Exn c m) = m"

text \<open>A name between single quotes, and between double quotes, as messages print them.\<close>

definition squote :: "string \<Rightarrow> string" where
  "squote s = CHR 0x27 # s @ [CHR 0x27]"

definition dquote :: "string \<Rightarrow> string" where
  "dquote s = CHR 0x22 # s @ [CHR 0x22]"

text \<open>\<open>isinstance(e, Exception)\<close>: every class above except \<open>CancelledError\<close>.\<close>

fun is_Exception :: "exn_class \<Rightarrow> bool" where
  "is_Exception CancelledError = False"
| "is_Exception c = True"

section \<open>The connection pool\<close>

text \<open>
  \<open>self.pool\<close> is \<open>None\<close> until \<open>initialize()\<close> stores a pool object; a pool object is
  open or closed. \<open>self.pool.acquire()\<close> raises \<open>AttributeError\<close> on \<open>None\<close> and the
  driver's \<open>InterfaceError\<close> on a closed pool.
\<close>

datatype pool_state = PoolOpen | PoolClosed

record Database =
  pool :: "pool_state option"

definition init_Database :: Database where
  "init_Database = \<lparr> pool = None \<rparr>"

definition acquire :: "Database \<Rightarrow> exn + unit" where
  "acquire db =
     (case pool db of
        None \<Rightarrow> Inl (Exn AttributeError (squote ''NoneType'' @ '' object has no attribute '' @ squote ''acquire''))
      | Some PoolClosed \<Rightarrow> Inl (Exn InterfaceError ''pool is closed'')
      | Some PoolOpen \<Rightarrow> Inr ())"

text \<open>\<open>Pool.close()\<close>: closes an open pool; returns at once on a closed one.\<close>

fun pool_close :: "pool_state \<Rightarrow> exn + pool_state" where
  "pool_close PoolOpen = Inr PoolClosed"
| "pool_close PoolClosed = Inr PoolClosed"

text \<open>
  \<open>close()\<close>: \<open>if self.pool: await self.pool.close()\<close>. A pool object is truthy, \<open>None\<close>
  is not. The method touches the object only, never the database.
\<close>

definition close :: "Database \<Rightarrow> exn + Database" where
  "close db =
     (case pool db of
        None \<Rightarrow> Inr db
      | Some p \<Rightarrow> (case pool_close p of
                    Inl e \<Rightarrow> Inl e
                  | Inr p' \<Rightarrow> Inr (db\<lparr>pool := Some p'\<rparr>)))"

section \<open>The database\<close>

text \<open>
  A \<open>DECIMAL(10,2)\<close> value is a whole number of hundredths, or NaN.
\<close>

datatype numeric_10_2 = Hundredths int | NumericNaN

record user_row =
  u_telegram_id :: int
  u_name :: string
  u_balance :: "numeric_10_2 option"
  u_user_type :: "string option"
  u_created_at :: nat

record order_row =
  o_id :: nat
  o_telegram_id :: int
  o_order_number :: string
  o_cafe :: string
  o_name :: string
  o_gender :: "string option"
  o_phone :: string
  o_time :: string
  o_food :: string
  o_place :: string
  o_total_items :: int
  o_total_price :: numeric_10_2
  o_status :: "string option"
  o_created_at :: nat

text \<open>
  The server's state: which of the four schema objects exist, the rows of the two
  tables (a table that does not exist is \<open>None\<close>), the clock that \<open>NOW()\<close> reads and
  the supply that \<open>uuid_generate_v4()\<close> draws from.
\<close>

record store =
  uuid_ossp :: bool
  users :: "user_row list option"
  orders :: "order_row list option"
  idx_orders_telegram_status :: bool
  now :: nat
  uuid_supply :: nat

subsection \<open>Schema bootstrap\<close>

text \<open>\<open>CREATE EXTENSION IF NOT EXISTS "uuid-ossp"\<close>\<close>

definition create_extension_uuid_ossp :: "store \<Rightarrow> exn + store" where
  "create_extension_uuid_ossp s =
     (if uuid_ossp s then Inr s else Inr (s\<lparr>uuid_ossp := True\<rparr>))"

text \<open>\<open>CREATE TABLE IF NOT EXISTS users (...)\<close>\<close>

definition create_table_users :: "store \<Rightarrow> exn + store" where
  "create_table_users s =
     (case users s of
        Some rows \<Rightarrow> Inr s
      | None \<Rightarrow> Inr (s\<lparr>users := Some []\<rparr>))"

text \<open>
  \<open>CREATE TABLE IF NOT EXISTS orders (...)\<close>: a new table needs the function of its
  \<open>id\<close> default and the table its foreign key references.
\<close>

definition create_table_orders :: "store \<Rightarrow> exn + store" where
  "create_table_orders s =
     (case orders s of
        Some rows \<Rightarrow> Inr s
      | None \<Rightarrow>
          if \<not> uuid_ossp s
          then Inl (Exn UndefinedFunctionError ''function uuid_generate_v4() does not exist'')
          else (case users s of
                  None \<Rightarrow> Inl (Exn UndefinedTableError (''relation '' @ dquote ''users'' @ '' does not exist''))
                | Some us \<Rightarrow> Inr (s\<lparr>orders := Some []\<rparr>)))"

text \<open>\<open>CREATE INDEX IF NOT EXISTS idx_orders_telegram_status ON orders(telegram_id, status)\<close>\<close>

definition create_index_orders :: "store \<Rightarrow> exn + store" where
  "create_index_orders s =
     (case orders s of
        None \<Rightarrow> Inl (Exn UndefinedTableError (''relation '' @ dquote ''orders'' @ '' does not exist''))
      | Some rows \<Rightarrow>
          if idx_orders_telegram_status s then Inr s
          else Inr (s\<lparr>idx_orders_telegram_status := True\<rparr>))"

text \<open>
  \<open>_create_tables()\<close>: one connection, four statements in order. Each statement
  commits on its own, so a failure keeps what the earlier statements did. The result
  is the state of the server and the outcome of the call.
\<close>

definition create_tables :: "Database \<Rightarrow> store \<Rightarrow> store \<times> (exn + unit)" where
  "create_tables db s =
     (case acquire db of
        Inl e \<Rightarrow> (s, Inl e)
      | Inr conn \<Rightarrow>
          (case create_extension_uuid_ossp s of
             Inl e \<Rightarrow> (s, Inl e)
           | Inr s1 \<Rightarrow>
               (case create_table_users s1 of
                  Inl e \<Rightarrow> (s1, Inl e)
                | Inr s2 \<Rightarrow>
                    (case create_table_orders s2 of
                       Inl e \<Rightarrow> (s2, Inl e)
                     | Inr s3 \<Rightarrow>
                         (case create_index_orders s3 of
                            Inl e \<Rightarrow> (s3, Inl e)
                          | Inr s4 \<Rightarrow> (s4, Inr ()))))))"

text \<open>
  \<open>initialize()\<close>: \<open>url\<close> is \<open>config.SUPABASE_DB_URL\<close> (\<open>None\<close> when the variable is
  unset), \<open>connect\<close> is the outcome of \<open>asyncpg.create_pool\<close> (\<open>None\<close> when the pool was
  created, the exception otherwise).
\<close>

definition initialize ::
  "string option \<Rightarrow> exn option \<Rightarrow> Database \<Rightarrow> store \<Rightarrow> Database \<times> store \<times> (exn + unit)" where
  "initialize url connect db s =
     (if url = None \<or> url = Some []
      then (db, s, Inl (Exn ValueError ''SUPABASE_DB_URL not set in config.py''))
      else (case connect of
              Some e \<Rightarrow> (db, s, Inl e)
            | None \<Rightarrow>
                (let db' = db\<lparr>pool := Some PoolOpen\<rparr>;
                     (s', r) = create_tables db' s
                 in (db', s', r))))"

text \<open>
  The state the other operations are specified for: \<open>initialize()\<close> has run, so the
  pool is open and the two tables exist.
\<close>

definition ready :: "Database \<Rightarrow> store \<Rightarrow> bool" where
  "ready db s \<longleftrightarrow> pool db = Some PoolOpen \<and> users s \<noteq> None \<and> orders s \<noteq> None"

section \<open>Python values\<close>

text \<open>
  A float is NaN, an infinity, or finite; a finite float is given by its exact value,
  a rational (the sign of zero is not kept). Strings are lists of 8-bit characters.
  The values an \<open>order_data\<close> mapping holds are \<open>None\<close>, ints, strs and floats.
\<close>

datatype pyfloat = Fin rat | NaN | PosInf | NegInf

datatype pyval = PyNone | PyInt int | PyStr string | PyFloat pyfloat

subsection \<open>Printing integers\<close>

definition digit :: "nat \<Rightarrow> char" where
  "digit d = ''0123456789'' ! (d mod 10)"

function digits :: "nat \<Rightarrow> string" where
  "digits n = (if n < 10 then [digit n] else digits (n div 10) @ [digit (n mod 10)])"
  by pat_completeness auto
termination
  by (relation "measure id") auto

declare digits.simps [simp del]

text \<open>
  \<open>format(n, "06d")\<close>: the sign first, then zeros up to a total width of six, then the
  digits; a number wider than six is printed whole.
\<close>

definition format_06d :: "int \<Rightarrow> string" where
  "format_06d n =
     (let sign = (if n < 0 then ''-'' else []);
          ds = digits (nat \<bar>n\<bar>)
      in sign @ replicate (6 - (length sign + length ds)) CHR ''0'' @ ds)"

subsection \<open>Numbers on the wire and in a column\<close>

text \<open>
  The driver sends a numeric argument as the exact decimal value of the Python number:
  \<open>Decimal(x)\<close> of a float is exact.
\<close>

datatype numeric_arg = NumFin rat | NumNaN | NumPosInf | NumNegInf

fun numeric_of_float :: "pyfloat \<Rightarrow> numeric_arg" where
  "numeric_of_float (Fin q) = NumFin q"
| "numeric_of_float NaN = NumNaN"
| "numeric_of_float PosInf = NumPosInf"
| "numeric_of_float NegInf = NumNegInf"

text \<open>The server rounds a numeric half away from zero.\<close>

definition round_half_away :: "rat \<Rightarrow> int" where
  "round_half_away q = (if q < 0 then - \<lfloor>- q + 1 / 2\<rfloor> else \<lfloor>q + 1 / 2\<rfloor>)"

definition numeric_overflow :: exn where
  "numeric_overflow = Exn NumericValueOutOfRangeError ''numeric field overflow''"

text \<open>
  Assignment to a \<open>DECIMAL(10,2)\<close> column: round to two decimals, then at most eight
  digits before the point. NaN is a value of the column; an infinity is not.
\<close>

fun to_numeric_10_2 :: "numeric_arg \<Rightarrow> exn + numeric_10_2" where
  "to_numeric_10_2 (NumFin q) =
     (let h = round_half_away (q * 100)
      in if \<bar>h\<bar> < 10 ^ 10 then Inr (Hundredths h) else Inl numeric_overflow)"
| "to_numeric_10_2 NumNaN = Inr NumericNaN"
| "to_numeric_10_2 NumPosInf = Inl numeric_overflow"
| "to_numeric_10_2 NumNegInf = Inl numeric_overflow"

subsection \<open>From a Decimal back to a float\<close>

text \<open>\<open>a / d\<close> rounded to the nearest integer, a tie to the even one (\<open>0 \<le> a\<close>, \<open>0 < d\<close>).\<close>

definition round_half_even_div :: "int \<Rightarrow> int \<Rightarrow> int" where
  "round_half_even_div a d =
     (let q = a div d; r = a mod d
      in if 2 * r < d then q
         else if 2 * r > d then q + 1
         else if even q then q else q + 1)"

text \<open>\<open>\<lfloor>log\<^sub>2 (a / d)\<rfloor>\<close> for \<open>0 < a\<close>, \<open>0 < d\<close>.\<close>

definition floor_log2 :: "int \<Rightarrow> int \<Rightarrow> int" where
  "floor_log2 a d =
     (let k = bitlen a - bitlen d
      in if (if 0 \<le> k then 2 ^ nat k * d \<le> a else d \<le> a * 2 ^ nat (- k)) then k else k - 1)"

text \<open>
  The binary64 float nearest to \<open>a / d\<close> (\<open>0 < a\<close>, \<open>0 < d\<close>), ties to even: a 53-bit
  significand \<open>m\<close> at exponent \<open>e\<close>, no exponent below \<open>-1074\<close>, and an infinity from
  \<open>2 ^ 1024\<close> on.
\<close>

definition nearest_double :: "int \<Rightarrow> int \<Rightarrow> pyfloat" where
  "nearest_double a d =
     (let e = max (floor_log2 a d - 52) (- 1074);
          m = (if 0 \<le> e then round_half_even_div a (d * 2 ^ nat e)
               else round_half_even_div (a * 2 ^ nat (- e)) d);
          v = (if 0 \<le> e then of_int (m * 2 ^ nat e) else of_int m / 2 ^ nat (- e))
      in if v < 2 ^ 1024 then Fin v else PosInf)"

fun neg_float :: "pyfloat \<Rightarrow> pyfloat" where
  "neg_float (Fin q) = Fin (- q)"
| "neg_float NaN = NaN"
| "neg_float PosInf = NegInf"
| "neg_float NegInf = PosInf"

text \<open>\<open>float(d)\<close> of the Decimal that the driver returns for a \<open>DECIMAL(10,2)\<close> value.\<close>

fun float_of_decimal :: "numeric_10_2 \<Rightarrow> pyfloat" where
  "float_of_decimal NumericNaN = NaN"
| "float_of_decimal (Hundredths h) =
     (if h = 0 then Fin 0
      else if 0 < h then nearest_double h 100
      else neg_float (nearest_double (- h) 100))"

text \<open>\<open>bool(d)\<close> of that Decimal: false for zero only.\<close>

fun decimal_truthy :: "numeric_10_2 \<Rightarrow> bool" where
  "decimal_truthy NumericNaN = True"
| "decimal_truthy (Hundredths h) = (h \<noteq> 0)"

section \<open>Queries\<close>

text \<open>Sequencing: an exception ends the computation, a value goes on to the rest.\<close>

fun and_then :: "exn + 'a \<Rightarrow> ('a \<Rightarrow> exn + 'b) \<Rightarrow> exn + 'b" where
  "and_then (Inl e) f = Inl e"
| "and_then (Inr x) f = f x"

subsection \<open>What the driver and the server reject\<close>

text \<open>
  The driver refuses an argument it cannot encode for the type of its parameter with a
  \<open>DataError\<close> that names the position and the reason (its message also quotes the
  offending value, which is left out here).
\<close>

definition data_error :: "nat \<Rightarrow> string \<Rightarrow> exn" where
  "data_error i reason =
     Exn DataError (''invalid input for query argument $'' @ digits i @ '' ('' @ reason @ '')'')"

definition int_range :: "nat \<Rightarrow> int \<Rightarrow> bool" where
  "int_range bits n \<longleftrightarrow> - (2 ^ (bits - 1)) \<le> n \<and> n < 2 ^ (bits - 1)"

definition out_of_range :: "nat \<Rightarrow> nat \<Rightarrow> exn" where
  "out_of_range bits i = data_error i (''value out of int'' @ digits bits @ '' range'')"

text \<open>A Python int for a \<open>BIGINT\<close> parameter: the signed 64-bit range, or \<open>DataError\<close>.\<close>

definition encode_int8 :: "nat \<Rightarrow> int \<Rightarrow> exn + int" where
  "encode_int8 i n = (if int_range 64 n then Inr n else Inl (out_of_range 64 i))"

text \<open>A text value cannot hold the character with code zero.\<close>

definition invalid_byte :: exn where
  "invalid_byte =
     Exn CharacterNotInRepertoireError
       (''invalid byte sequence for encoding '' @ dquote ''UTF8'' @ '': 0x00'')"

definition check_text :: "string \<Rightarrow> exn + string" where
  "check_text s = (if CHR 0x00 \<in> set s then Inl invalid_byte else Inr s)"

definition undefined_table :: "string \<Rightarrow> exn" where
  "undefined_table t = Exn UndefinedTableError (''relation '' @ dquote t @ '' does not exist'')"

definition unique_violation :: "string \<Rightarrow> exn" where
  "unique_violation c =
     Exn UniqueViolationError (''duplicate key value violates unique constraint '' @ dquote c)"

text \<open>Preparing a statement fails when its table does not exist.\<close>

definition users_table :: "store \<Rightarrow> exn + user_row list" where
  "users_table s = (case users s of None \<Rightarrow> Inl (undefined_table ''users'') | Some us \<Rightarrow> Inr us)"

definition orders_table :: "store \<Rightarrow> exn + order_row list" where
  "orders_table s = (case orders s of None \<Rightarrow> Inl (undefined_table ''orders'') | Some os \<Rightarrow> Inr os)"

subsection \<open>User methods\<close>

text \<open>
  \<open>fetchval("SELECT 1 FROM users WHERE telegram_id = $1", telegram_id)\<close>: the first
  column of the first row, \<open>None\<close> when no row matches.
\<close>

definition select_1_from_users :: "store \<Rightarrow> int \<Rightarrow> exn + int option" where
  "select_1_from_users s telegram_id =
     and_then (users_table s) (\<lambda>us.
     and_then (encode_int8 1 telegram_id) (\<lambda>t.
       Inr (case filter (\<lambda>r. u_telegram_id r = t) us of
              [] \<Rightarrow> None
            | r # rs \<Rightarrow> Some 1)))"

definition is_user_authorized :: "Database \<Rightarrow> store \<Rightarrow> int \<Rightarrow> store \<times> (exn + bool)" where
  "is_user_authorized db s telegram_id =
     (s, and_then (acquire db) (\<lambda>conn.
         and_then (select_1_from_users s telegram_id) (\<lambda>result.
           Inr (result \<noteq> None))))"

text \<open>
  \<open>fetchval("SELECT balance FROM users WHERE telegram_id = $1", telegram_id)\<close>: \<open>None\<close>
  when no row matches and when the balance of the first row is \<open>NULL\<close>.
\<close>

definition select_balance_from_users :: "store \<Rightarrow> int \<Rightarrow> exn + numeric_10_2 option" where
  "select_balance_from_users s telegram_id =
     and_then (users_table s) (\<lambda>us.
     and_then (encode_int8 1 telegram_id) (\<lambda>t.
       Inr (case filter (\<lambda>r. u_telegram_id r = t) us of
              [] \<Rightarrow> None
            | r # rs \<Rightarrow> u_balance r)))"

text \<open>\<open>return float(balance) if balance else 0.0\<close>\<close>

definition get_user_balance :: "Database \<Rightarrow> store \<Rightarrow> int \<Rightarrow> store \<times> (exn + pyfloat)" where
  "get_user_balance db s telegram_id =
     (s, and_then (acquire db) (\<lambda>conn.
         and_then (select_balance_from_users s telegram_id) (\<lambda>balance.
           Inr (case balance of
                  None \<Rightarrow> Fin 0
                | Some d \<Rightarrow> if decimal_truthy d then float_of_decimal d else Fin 0))))"

text \<open>
  \<open>UPDATE users SET balance = $1 WHERE telegram_id = $2\<close>. The new balance is brought
  to the column's type when the statement is planned with its arguments, before any
  row is looked at; then every row with the key gets it.
\<close>

definition update_users_set_balance :: "store \<Rightarrow> pyfloat \<Rightarrow> int \<Rightarrow> exn + store" where
  "update_users_set_balance s new_balance telegram_id =
     and_then (users_table s) (\<lambda>us.
     and_then (encode_int8 2 telegram_id) (\<lambda>t.
     and_then (to_numeric_10_2 (numeric_of_float new_balance)) (\<lambda>b.
       Inr (s\<lparr>users :=
              Some (map (\<lambda>r. if u_telegram_id r = t then r\<lparr>u_balance := Some b\<rparr> else r) us)\<rparr>))))"

definition update_user_balance ::
  "Database \<Rightarrow> store \<Rightarrow> int \<Rightarrow> pyfloat \<Rightarrow> store \<times> (exn + unit)" where
  "update_user_balance db s telegram_id new_balance =
     (case and_then (acquire db) (\<lambda>conn.
             update_users_set_balance s new_balance telegram_id) of
        Inl e \<Rightarrow> (s, Inl e)
      | Inr s' \<Rightarrow> (s', Inr ()))"

text \<open>
  \<open>INSERT INTO users (telegram_id, name, balance) VALUES ($1, $2, $3)\<close>: the other
  columns take their defaults, \<open>NULL\<close> for \<open>user_type\<close> and \<open>NOW()\<close> for \<open>created_at\<close>.
  The primary key admits one row for each \<open>telegram_id\<close>.
\<close>

definition insert_into_users :: "store \<Rightarrow> int \<Rightarrow> string \<Rightarrow> pyfloat \<Rightarrow> exn + store" where
  "insert_into_users s telegram_id name' balance =
     and_then (users_table s) (\<lambda>us.
     and_then (encode_int8 1 telegram_id) (\<lambda>t.
     and_then (check_text name') (\<lambda>n.
     and_then (to_numeric_10_2 (numeric_of_float balance)) (\<lambda>b.
       if t \<in> u_telegram_id ` set us then Inl (unique_violation ''users_pkey'')
       else Inr (s\<lparr>users :=
                   Some (us @ [\<lparr>u_telegram_id = t, u_name = n, u_balance = Some b,
                                u_user_type = None, u_created_at = now s\<rparr>])\<rparr>)))))"

text \<open>The body of the \<open>try\<close> in \<open>add_user\<close>.\<close>

definition add_user_body :: "Database \<Rightarrow> store \<Rightarrow> int \<Rightarrow> string \<Rightarrow> pyfloat \<Rightarrow> exn + store" where
  "add_user_body db s telegram_id name' initial_balance =
     and_then (acquire db) (\<lambda>conn. insert_into_users s telegram_id name' initial_balance)"

text \<open>
  \<open>add_user\<close>: the two \<open>except\<close> clauses in their order. An exception that neither
  clause matches leaves the method.
\<close>

definition add_user ::
  "Database \<Rightarrow> store \<Rightarrow> int \<Rightarrow> string \<Rightarrow> pyfloat \<Rightarrow> store \<times> (exn + bool \<times> string)" where
  "add_user db s telegram_id name' initial_balance =
     (case add_user_body db s telegram_id name' initial_balance of
        Inr s' \<Rightarrow> (s', Inr (True, ''User added successfully''))
      | Inl e \<Rightarrow>
          if class_of e = UniqueViolationError then (s, Inr (False, ''User already exists''))
          else if is_Exception (class_of e) then (s, Inr (False, str_exn e))
          else (s, Inl e))"

subsection \<open>Order methods\<close>

text \<open>\<open>fetchval("SELECT COUNT(*) FROM orders")\<close>\<close>

definition select_count_from_orders :: "store \<Rightarrow> exn + int" where
  "select_count_from_orders s = and_then (orders_table s) (\<lambda>os. Inr (int (length os)))"

text \<open>\<open>return f"ORD-{count + 1:06d}"\<close>\<close>

definition get_next_order_number :: "Database \<Rightarrow> store \<Rightarrow> store \<times> (exn + string)" where
  "get_next_order_number db s =
     (s, and_then (acquire db) (\<lambda>conn.
         and_then (select_count_from_orders s) (\<lambda>count.
           Inr (''ORD-'' @ format_06d (count + 1)))))"

text \<open>\<open>order_data[k]\<close>: \<open>KeyError\<close> when the mapping has no key \<open>k\<close>.\<close>

definition subscript :: "(string \<rightharpoonup> pyval) \<Rightarrow> string \<Rightarrow> exn + pyval" where
  "subscript d k = (case d k of None \<Rightarrow> Inl (Exn KeyError (squote k)) | Some v \<Rightarrow> Inr v)"

text \<open>The arguments of a call are evaluated from left to right.\<close>

fun subscripts :: "(string \<rightharpoonup> pyval) \<Rightarrow> string list \<Rightarrow> exn + pyval list" where
  "subscripts d [] = Inr []"
| "subscripts d (k # ks) =
     and_then (subscript d k) (\<lambda>v.
     and_then (subscripts d ks) (\<lambda>vs. Inr (v # vs)))"

text \<open>The keys that \<open>create_order\<close> reads, in the order of its argument list.\<close>

definition order_keys :: "string list" where
  "order_keys =
     [''user_telegram_id'', ''order_number'', ''cafe'', ''name'', ''gender'', ''phone'',
      ''time'', ''food'', ''place'', ''total_items'', ''total_price'']"

text \<open>
  What the driver makes of a Python value for an integer parameter of the given
  width: \<open>None\<close> is \<open>NULL\<close>, an int must be in range, a float is cut to an int first.
\<close>

definition truncate :: "rat \<Rightarrow> int" where
  "truncate q = (if q < 0 then - \<lfloor>- q\<rfloor> else \<lfloor>q\<rfloor>)"

fun encode_integer :: "nat \<Rightarrow> nat \<Rightarrow> pyval \<Rightarrow> exn + int option" where
  "encode_integer bits i PyNone = Inr None"
| "encode_integer bits i (PyInt n) =
     (if int_range bits n then Inr (Some n) else Inl (out_of_range bits i))"
| "encode_integer bits i (PyStr s) =
     Inl (data_error i (squote ''str'' @ '' object cannot be interpreted as an integer''))"
| "encode_integer bits i (PyFloat (Fin q)) =
     (if int_range bits (truncate q) then Inr (Some (truncate q)) else Inl (out_of_range bits i))"
| "encode_integer bits i (PyFloat NaN) =
     Inl (data_error i ''cannot convert float NaN to integer'')"
| "encode_integer bits i (PyFloat PosInf) = Inl (out_of_range bits i)"
| "encode_integer bits i (PyFloat NegInf) = Inl (out_of_range bits i)"

text \<open>For a text parameter only a str will do.\<close>

fun encode_text :: "nat \<Rightarrow> pyval \<Rightarrow> exn + string option" where
  "encode_text i PyNone = Inr None"
| "encode_text i (PyStr s) = Inr (Some s)"
| "encode_text i (PyInt n) = Inl (data_error i ''expected str, got int'')"
| "encode_text i (PyFloat f) = Inl (data_error i ''expected str, got float'')"

text \<open>
  For a numeric parameter the driver takes \<open>Decimal(x)\<close>: exact on an int and on a
  float; on a str it is Python's parser of decimal literals, the parameter
  \<open>decimal_of_str\<close> here (\<open>None\<close> where the parser raises). The driver's own limit on the
  number of digits is not modelled: the column's range rejects such a value.
\<close>

fun encode_numeric ::
  "(string \<Rightarrow> numeric_arg option) \<Rightarrow> nat \<Rightarrow> pyval \<Rightarrow> exn + numeric_arg option" where
  "encode_numeric decimal_of_str i PyNone = Inr None"
| "encode_numeric decimal_of_str i (PyInt n) = Inr (Some (NumFin (of_int n)))"
| "encode_numeric decimal_of_str i (PyFloat f) = Inr (Some (numeric_of_float f))"
| "encode_numeric decimal_of_str i (PyStr s) =
     (case decimal_of_str s of
        None \<Rightarrow> Inl (data_error i (''[<class '' @ squote ''decimal.ConversionSyntax'' @ ''>]''))
      | Some a \<Rightarrow> Inr (Some a))"

text \<open>The encoded arguments of the insert, \<open>$1\<close> to \<open>$11\<close>.\<close>

record order_params =
  p_telegram_id :: "int option"
  p_order_number :: "string option"
  p_cafe :: "string option"
  p_name :: "string option"
  p_gender :: "string option"
  p_phone :: "string option"
  p_time :: "string option"
  p_food :: "string option"
  p_place :: "string option"
  p_total_items :: "int option"
  p_total_price :: "numeric_arg option"

definition encode_order_args ::
  "(string \<Rightarrow> numeric_arg option) \<Rightarrow> pyval list \<Rightarrow> exn + order_params" where
  "encode_order_args decimal_of_str args =
     and_then (encode_integer 64 1 (args ! 0)) (\<lambda>a1.
     and_then (encode_text 2 (args ! 1)) (\<lambda>a2.
     and_then (encode_text 3 (args ! 2)) (\<lambda>a3.
     and_then (encode_text 4 (args ! 3)) (\<lambda>a4.
     and_then (encode_text 5 (args ! 4)) (\<lambda>a5.
     and_then (encode_text 6 (args ! 5)) (\<lambda>a6.
     and_then (encode_text 7 (args ! 6)) (\<lambda>a7.
     and_then (encode_text 8 (args ! 7)) (\<lambda>a8.
     and_then (encode_text 9 (args ! 8)) (\<lambda>a9.
     and_then (encode_integer 32 10 (args ! 9)) (\<lambda>a10.
     and_then (encode_numeric decimal_of_str 11 (args ! 10)) (\<lambda>a11.
       Inr \<lparr>p_telegram_id = a1, p_order_number = a2, p_cafe = a3, p_name = a4,
            p_gender = a5, p_phone = a6, p_time = a7, p_food = a8, p_place = a9,
            p_total_items = a10, p_total_price = a11\<rparr>)))))))))))"

text \<open>The server reads the text arguments in their order.\<close>

fun check_text_opt :: "string option \<Rightarrow> exn + unit" where
  "check_text_opt None = Inr ()"
| "check_text_opt (Some s) = and_then (check_text s) (\<lambda>t. Inr ())"

definition receive_order_params :: "order_params \<Rightarrow> exn + unit" where
  "receive_order_params p =
     and_then (check_text_opt (p_order_number p)) (\<lambda>u.
     and_then (check_text_opt (p_cafe p)) (\<lambda>u.
     and_then (check_text_opt (p_name p)) (\<lambda>u.
     and_then (check_text_opt (p_gender p)) (\<lambda>u.
     and_then (check_text_opt (p_phone p)) (\<lambda>u.
     and_then (check_text_opt (p_time p)) (\<lambda>u.
     and_then (check_text_opt (p_food p)) (\<lambda>u.
     check_text_opt (p_place p))))))))"

text \<open>
  Assignment to a \<open>CHAR(1)\<close> column: a shorter value is padded with a space, a longer
  one loses its tail if the tail is spaces only and is an error otherwise.
\<close>

definition to_char_1 :: "string \<Rightarrow> exn + string" where
  "to_char_1 v =
     (if length v \<le> 1 then Inr (v @ replicate (1 - length v) CHR '' '')
      else if set (drop 1 v) \<subseteq> {CHR '' ''} then Inr (take 1 v)
      else Inl (Exn StringDataRightTruncationError ''value too long for type character(1)''))"

text \<open>A function applied to a value that may be \<open>NULL\<close>: \<open>NULL\<close> stays \<open>NULL\<close>.\<close>

fun on_value :: "('a \<Rightarrow> exn + 'b) \<Rightarrow> 'a option \<Rightarrow> exn + 'b option" where
  "on_value f None = Inr None"
| "on_value f (Some x) = and_then (f x) (\<lambda>y. Inr (Some y))"

definition not_null :: "string \<Rightarrow> 'a option \<Rightarrow> exn + 'a" where
  "not_null column v =
     (case v of
        None \<Rightarrow> Inl (Exn NotNullViolationError
                      (''null value in column '' @ dquote column @ '' of relation '' @
                       dquote ''orders'' @ '' violates not-null constraint''))
      | Some x \<Rightarrow> Inr x)"

text \<open>\<open>CHECK (gender IN ('M', 'F'))\<close>: a check that is not false holds, so \<open>NULL\<close> passes.\<close>

definition gender_check :: "string option \<Rightarrow> bool" where
  "gender_check g = (case g of None \<Rightarrow> True | Some v \<Rightarrow> v = ''M'' \<or> v = ''F'')"

definition foreign_key_check :: "store \<Rightarrow> int \<Rightarrow> bool" where
  "foreign_key_check s t =
     (case users s of None \<Rightarrow> True | Some us \<Rightarrow> t \<in> u_telegram_id ` set us)"

text \<open>
  The insert of \<open>create_order\<close>. The statement is prepared, the driver encodes the
  arguments, the server reads them and brings \<open>gender\<close> and \<open>total_price\<close> to the types of
  their columns; then the row is built, with the defaults of \<open>id\<close>, \<open>status\<close> and
  \<open>created_at\<close>, and checked: \<open>NOT NULL\<close> column by column, the \<open>CHECK\<close>, the unique
  \<open>order_number\<close>, the foreign key.
\<close>

definition insert_into_orders ::
  "(string \<Rightarrow> numeric_arg option) \<Rightarrow> store \<Rightarrow> pyval list \<Rightarrow> exn + store" where
  "insert_into_orders decimal_of_str s args =
     and_then (orders_table s) (\<lambda>os.
     and_then (encode_order_args decimal_of_str args) (\<lambda>p.
     and_then (receive_order_params p) (\<lambda>u.
     and_then (on_value to_char_1 (p_gender p)) (\<lambda>gender.
     and_then (on_value to_numeric_10_2 (p_total_price p)) (\<lambda>total_price.
     and_then (not_null ''telegram_id'' (p_telegram_id p)) (\<lambda>telegram_id.
     and_then (not_null ''order_number'' (p_order_number p)) (\<lambda>order_number.
     and_then (not_null ''cafe'' (p_cafe p)) (\<lambda>cafe.
     and_then (not_null ''name'' (p_name p)) (\<lambda>name'.
     and_then (not_null ''phone'' (p_phone p)) (\<lambda>phone.
     and_then (not_null ''time'' (p_time p)) (\<lambda>time'.
     and_then (not_null ''food'' (p_food p)) (\<lambda>food.
     and_then (not_null ''place'' (p_place p)) (\<lambda>place.
     and_then (not_null ''total_items'' (p_total_items p)) (\<lambda>total_items.
     and_then (not_null ''total_price'' total_price) (\<lambda>price.
       if \<not> gender_check gender
       then Inl (Exn CheckViolationError
                   (''new row for relation '' @ dquote ''orders'' @
                    '' violates check constraint '' @ dquote ''orders_gender_check''))
       else if order_number \<in> o_order_number ` set os
       then Inl (unique_violation ''orders_order_number_key'')
       else if \<not> foreign_key_check s telegram_id
       then Inl (Exn ForeignKeyViolationError
                   (''insert or update on table '' @ dquote ''orders'' @
                    '' violates foreign key constraint '' @ dquote ''orders_telegram_id_fkey''))
       else Inr (s\<lparr>orders :=
                   Some (os @ [\<lparr>o_id = uuid_supply s, o_telegram_id = telegram_id,
                                o_order_number = order_number, o_cafe = cafe, o_name = name',
                                o_gender = gender, o_phone = phone, o_time = time',
                                o_food = food, o_place = place, o_total_items = total_items,
                                o_total_price = price, o_status = Some ''pending'',
                                o_created_at = now s\<rparr>]),
                 uuid_supply := Suc (uuid_supply s)\<rparr>))))))))))))))))"

text \<open>
  \<open>create_order\<close>: the connection, the eleven subscriptions, the insert. Nothing is
  caught.
\<close>

definition create_order ::
  "(string \<Rightarrow> numeric_arg option) \<Rightarrow> Database \<Rightarrow> store \<Rightarrow> (string \<rightharpoonup> pyval)
     \<Rightarrow> store \<times> (exn + unit)" where
  "create_order decimal_of_str db s order_data =
     (case and_then (acquire db) (\<lambda>conn.
           and_then (subscripts order_data order_keys) (\<lambda>args.
             insert_into_orders decimal_of_str s args)) of
        Inl e \<Rightarrow> (s, Inl e)
      | Inr s' \<Rightarrow> (s', Inr ()))"

section \<open>Configuration\<close>

text \<open>
  The process environment after \<open>load_dotenv()\<close>. \<open>os.getenv(k)\<close> is the value of the
  variable, a str, or \<open>None\<close>; \<open>os.getenv(k, d)\<close> is \<open>d\<close> for a variable that is not set.
\<close>

type_synonym environ = "string \<rightharpoonup> string"

definition getenv :: "environ \<Rightarrow> string \<Rightarrow> pyval" where
  "getenv env k = (case env k of None \<Rightarrow> PyNone | Some v \<Rightarrow> PyStr v)"

definition getenv_default :: "environ \<Rightarrow> string \<Rightarrow> string \<Rightarrow> string" where
  "getenv_default env k d = (case env k of None \<Rightarrow> d | Some v \<Rightarrow> v)"

definition CHANNELS :: "environ \<Rightarrow> (string \<rightharpoonup> pyval)" where
  "CHANNELS env =
     [''female_main'' \<mapsto> getenv env ''CHANNEL_FEMALE_MAIN'',
      ''male_main'' \<mapsto> getenv env ''CHANNEL_MALE_MAIN'',
      ''female_tecno'' \<mapsto> getenv env ''CHANNEL_FEMALE_TECNO'',
      ''male_tecno'' \<mapsto> getenv env ''CHANNEL_MALE_TECNO'',
      ''agri'' \<mapsto> getenv env ''CHANNEL_AGRI'']"

definition channel_names :: "string list" where
  "channel_names = [''female_main'', ''male_main'', ''female_tecno'', ''male_tecno'', ''agri'']"

subsection \<open>Strings\<close>

text \<open>\<open>s.split(',')\<close>: the pieces between the commas, at least one piece.\<close>

fun split_comma :: "string \<Rightarrow> string list" where
  "split_comma [] = [[]]"
| "split_comma (c # cs) =
     (if c = CHR '','' then [] # split_comma cs
      else (case split_comma cs of
              [] \<Rightarrow> [[c]]
            | p # ps \<Rightarrow> (c # p) # ps))"

text \<open>The whitespace of \<open>str.strip()\<close> and of \<open>int()\<close> among the 8-bit characters.\<close>

definition is_space :: "char \<Rightarrow> bool" where
  "is_space c \<longleftrightarrow>
     c \<in> {CHR 0x09, CHR 0x0A, CHR 0x0B, CHR 0x0C, CHR 0x0D, CHR 0x1C, CHR 0x1D, CHR 0x1E,
          CHR 0x1F, CHR 0x20, CHR 0x85, CHR 0xA0}"

definition strip :: "string \<Rightarrow> string" where
  "strip s = rev (dropWhile is_space (rev (dropWhile is_space s)))"

subsection \<open>\<open>int()\<close> of a str\<close>

definition digit_val :: "char \<Rightarrow> nat option" where
  "digit_val c =
     (if c = CHR ''0'' then Some 0 else if c = CHR ''1'' then Some 1
      else if c = CHR ''2'' then Some 2 else if c = CHR ''3'' then Some 3
      else if c = CHR ''4'' then Some 4 else if c = CHR ''5'' then Some 5
      else if c = CHR ''6'' then Some 6 else if c = CHR ''7'' then Some 7
      else if c = CHR ''8'' then Some 8 else if c = CHR ''9'' then Some 9
      else None)"

text \<open>
  The rest of a literal after a digit: more digits, each of which one underscore may
  precede. \<open>acc\<close> is the value read so far.
\<close>

fun more_digits :: "nat \<Rightarrow> string \<Rightarrow> nat option" where
  "more_digits acc [] = Some acc"
| "more_digits acc [c] =
     (case digit_val c of None \<Rightarrow> None | Some v \<Rightarrow> Some (10 * acc + v))"
| "more_digits acc (c # d # cs) =
     (if c = CHR ''_''
      then (case digit_val d of None \<Rightarrow> None | Some v \<Rightarrow> more_digits (10 * acc + v) cs)
      else (case digit_val c of None \<Rightarrow> None | Some v \<Rightarrow> more_digits (10 * acc + v) (d # cs)))"

definition int_digits :: "string \<Rightarrow> nat option" where
  "int_digits s =
     (case s of
        [] \<Rightarrow> None
      | c # cs \<Rightarrow> (case digit_val c of None \<Rightarrow> None | Some v \<Rightarrow> more_digits v cs))"

text \<open>
  \<open>int(s)\<close>: whitespace around the literal is ignored, a sign may come first; \<open>None\<close>
  stands for the \<open>ValueError\<close> of a str that is no literal. The limit that newer
  interpreters put on the number of digits is not modelled.
\<close>

definition py_int :: "string \<Rightarrow> int option" where
  "py_int s =
     (case strip s of
        [] \<Rightarrow> None
      | c # cs \<Rightarrow>
          if c = CHR ''-'' then map_option (\<lambda>n. - int n) (int_digits cs)
          else if c = CHR ''+'' then map_option int (int_digits cs)
          else map_option int (int_digits (c # cs)))"

subsection \<open>The administrators\<close>

text \<open>Loading the module stops at the first entry that \<open>int()\<close> refuses.\<close>

datatype config_error = Invalid_literal string

text \<open>\<open>[int(id.strip()) for id in entries if id.strip()]\<close>\<close>

fun admin_comprehension :: "string list \<Rightarrow> config_error + int list" where
  "admin_comprehension [] = Inr []"
| "admin_comprehension (id' # ids) =
     (if strip id' \<noteq> []
      then (case py_int (strip id') of
              None \<Rightarrow> Inl (Invalid_literal (strip id'))
            | Some n \<Rightarrow> (case admin_comprehension ids of
                           Inl e \<Rightarrow> Inl e
                         | Inr ns \<Rightarrow> Inr (n # ns)))
      else admin_comprehension ids)"

definition ADMIN_IDS :: "environ \<Rightarrow> config_error + int list" where
  "ADMIN_IDS env = admin_comprehension (split_comma (getenv_default env ''ADMIN_IDS'' []))"

subsection \<open>The administrators as the specification words them\<close>

text \<open>
  The comma-separated value, its empty and whitespace-only entries dropped, each of
  the others parsed to an integer.
\<close>

definition whitespace_only :: "string \<Rightarrow> bool" where
  "whitespace_only e \<longleftrightarrow> list_all is_space e"

definition spec_admin_entries :: "string \<Rightarrow> string list" where
  "spec_admin_entries v = filter (\<lambda>e. \<not> whitespace_only e) (split_comma v)"

definition spec_admin_ids :: "string \<Rightarrow> int option list" where
  "spec_admin_ids v = map py_int (spec_admin_entries v)"

subsection \<open>The order number as the specification words it\<close>

text \<open>\<open>ORD-\<close>, then the number in decimal, zeros put before it up to six digits.\<close>

definition spec_order_number :: "nat \<Rightarrow> string" where
  "spec_order_number n =
     ''ORD-'' @ replicate (6 - length (digits n)) CHR ''0'' @ digits n"

text \<open>The number that a string of decimal digits denotes.\<close>

definition decimal_value :: "string \<Rightarrow> nat" where
  "decimal_value ds = foldl (\<lambda>acc c. 10 * acc + (case digit_val c of None \<Rightarrow> 0 | Some v \<Rightarrow> v)) 0 ds"

section \<open>Example states\<close>

text \<open>A server on which nothing has been created, and the object before and after
  \<open>initialize()\<close>.\<close>

definition empty_store :: store where
  "empty_store = \<lparr>uuid_ossp = False, users = None, orders = None,
     idx_orders_telegram_status = False, now = 0, uuid_supply = 0\<rparr>"

definition open_Database :: Database where
  "open_Database = \<lparr>pool = Some PoolOpen\<rparr>"

text \<open>A bootstrapped server with one user, Alice, who holds 10.00.\<close>

definition alice :: user_row where
  "alice = \<lparr>u_telegram_id = 42, u_name = ''Alice'', u_balance = Some (Hundredths 1000),
     u_user_type = None, u_created_at = 0\<rparr>"

definition alice_store :: store where
  "alice_store = \<lparr>uuid_ossp = True, users = Some [alice], orders = Some [],
     idx_orders_telegram_status = True, now = 7, uuid_supply = 0\<rparr>"

text \<open>
  An \<open>order_data\<close> for Alice: two items at 6.65, the price a float. One with gender
  \<open>M\<close>, one with gender \<open>None\<close>, and one that has the key \<open>telegram_id\<close> where
  \<open>user_telegram_id\<close> is expected.
\<close>

definition order_without_gender :: "string \<rightharpoonup> pyval" where
  "order_without_gender =
     [''user_telegram_id'' \<mapsto> PyInt 42, ''order_number'' \<mapsto> PyStr ''ORD-000001'',
      ''cafe'' \<mapsto> PyStr ''Central'', ''name'' \<mapsto> PyStr ''Alice'',
      ''phone'' \<mapsto> PyStr ''0911000000'', ''time'' \<mapsto> PyStr ''12:30'',
      ''food'' \<mapsto> PyStr ''Pasta'', ''place'' \<mapsto> PyStr ''Dorm 3'',
      ''total_items'' \<mapsto> PyInt 2, ''total_price'' \<mapsto> PyFloat (nearest_double 133 10)]"

definition order_male :: "string \<rightharpoonup> pyval" where
  "order_male = order_without_gender(''gender'' \<mapsto> PyStr ''M'')"

definition order_null_gender :: "string \<rightharpoonup> pyval" where
  "order_null_gender = order_without_gender(''gender'' \<mapsto> PyNone)"

definition order_wrong_key :: "string \<rightharpoonup> pyval" where
  "order_wrong_key = (order_male(''user_telegram_id'' := None))(''telegram_id'' \<mapsto> PyInt 42)"

text \<open>A parser of decimal literals that accepts nothing, for the examples.\<close>

definition no_decimal :: "string \<Rightarrow> numeric_arg option" where
  "no_decimal s = None"

text \<open>The row of that order with gender \<open>M\<close>, and the server once it is stored.\<close>

definition order_1 :: order_row where
  "order_1 = \<lparr>o_id = 0, o_telegram_id = 42, o_order_number = ''ORD-000001'',
     o_cafe = ''Central'', o_name = ''Alice'', o_gender = Some ''M'', o_phone = ''0911000000'',
     o_time = ''12:30'', o_food = ''Pasta'', o_place = ''Dorm 3'', o_total_items = 2,
     o_total_price = Hundredths 1330, o_status = Some ''pending'', o_created_at = 7\<rparr>"

definition alice_store_1 :: store where
  "alice_store_1 = alice_store\<lparr>orders := Some [order_1], uuid_supply := 1\<rparr>"

text \<open>Bob, as \<open>add_user(7, "Bob", 10.0)\<close> stores him on that server.\<close>

definition bob :: user_row where
  "bob = \<lparr>u_telegram_id = 7, u_name = ''Bob'', u_balance = Some (Hundredths 1000),
     u_user_type = None, u_created_at = 7\<rparr>"

text \<open>An environment with four of the channels set, \<open>CHANNEL_AGRI\<close> not set, and a
  list of administrators with an empty entry and a blank one.\<close>

definition example_env :: environ where
  "example_env =
     [''CHANNEL_FEMALE_MAIN'' \<mapsto> ''-1001'', ''CHANNEL_MALE_MAIN'' \<mapsto> ''-1002'',
      ''CHANNEL_FEMALE_TECNO'' \<mapsto> ''-1003'', ''CHANNEL_MALE_TECNO'' \<mapsto> ''@tecno'',
      ''ADMIN_IDS'' \<mapsto> ''12, 34,,  ,5'']"

section \<open>Properties\<close>

subsection \<open>Pool lifecycle\<close>

lemma pool_close_closed: "pool_close p = Inr PoolClosed"
  by (cases p) simp_all

text \<open>
  Claim C9. \<open>close()\<close> is safe in every pool state: with no pool it returns normally
  and leaves the object as it is; with a pool, open or already closed, it returns
  normally and the pool is closed afterwards.
\<close>

theorem close_safe:
  "(pool db = None \<longrightarrow> close db = Inr db)
   \<and> (\<forall>p. pool db = Some p \<longrightarrow> close db = Inr (db\<lparr>pool := Some PoolClosed\<rparr>))"
  by (auto simp: close_def pool_close_closed split: option.splits)

theorem close_safe_witness:
  "pool init_Database = None \<and> close init_Database = Inr init_Database
   \<and> pool open_Database = Some PoolOpen
   \<and> close open_Database = Inr \<lparr>pool = Some PoolClosed\<rparr>
   \<and> close \<lparr>pool = Some PoolClosed\<rparr> = Inr \<lparr>pool = Some PoolClosed\<rparr>"
  using close_safe [of init_Database] close_safe [of open_Database]
    close_safe [of "\<lparr>pool = Some PoolClosed\<rparr>"]
  by (simp add: init_Database_def open_Database_def)

subsection \<open>Schema bootstrap\<close>

lemmas bootstrap_defs = create_tables_def acquire_def create_extension_uuid_ossp_def
  create_table_users_def create_table_orders_def create_index_orders_def

lemma create_tables_open:
  "pool db = Some PoolOpen \<Longrightarrow>
   create_tables db s =
     (s\<lparr>uuid_ossp := True,
        users := Some (case users s of None \<Rightarrow> [] | Some us \<Rightarrow> us),
        orders := Some (case orders s of None \<Rightarrow> [] | Some os \<Rightarrow> os),
        idx_orders_telegram_status := True\<rparr>, Inr ())"
  by (cases "uuid_ossp s"; cases "users s"; cases "orders s"; cases "idx_orders_telegram_status s")
     (simp_all add: bootstrap_defs)

lemma create_tables_not_open:
  "pool db \<noteq> Some PoolOpen \<Longrightarrow> \<exists>e. create_tables db s = (s, Inl e)"
  by (auto simp: create_tables_def acquire_def split: option.splits pool_state.splits)

text \<open>
  Claim C8. Schema bootstrap is idempotent: a second run of \<open>_create_tables()\<close> right
  after a first one returns what the first returned and leaves the state the first
  left. A run keeps every table that exists, with its rows, and the extension and the
  index if they exist; on an open pool it succeeds and all four objects exist after it.
\<close>

theorem create_tables_idempotent:
  "create_tables db (fst (create_tables db s)) = create_tables db s
   \<and> (\<forall>us. users s = Some us \<longrightarrow> users (fst (create_tables db s)) = Some us)
   \<and> (\<forall>os. orders s = Some os \<longrightarrow> orders (fst (create_tables db s)) = Some os)
   \<and> (uuid_ossp s \<longrightarrow> uuid_ossp (fst (create_tables db s)))
   \<and> (idx_orders_telegram_status s \<longrightarrow> idx_orders_telegram_status (fst (create_tables db s)))
   \<and> (pool db = Some PoolOpen \<longrightarrow>
        snd (create_tables db s) = Inr () \<and> ready db (fst (create_tables db s))
        \<and> uuid_ossp (fst (create_tables db s))
        \<and> idx_orders_telegram_status (fst (create_tables db s)))"
proof (cases "pool db = Some PoolOpen")
  case True
  show ?thesis
    by (simp add: create_tables_open [OF True] ready_def True)
next
  case False
  from create_tables_not_open [OF False]
  obtain e where "create_tables db s = (s, Inl e)" by blast
  then show ?thesis using False by simp
qed

theorem create_tables_idempotent_witness:
  "users alice_store = Some [alice]
   \<and> orders alice_store = Some []
   \<and> uuid_ossp alice_store \<and> idx_orders_telegram_status alice_store
   \<and> pool open_Database = Some PoolOpen
   \<and> create_tables open_Database (fst (create_tables open_Database alice_store))
       = create_tables open_Database alice_store
   \<and> users (fst (create_tables open_Database alice_store)) = Some [alice]
   \<and> orders (fst (create_tables open_Database alice_store)) = Some []
   \<and> snd (create_tables open_Database alice_store) = Inr ()
   \<and> snd (create_tables open_Database empty_store) = Inr ()
   \<and> users (fst (create_tables open_Database empty_store)) = Some []"
  using create_tables_idempotent [of open_Database alice_store]
    create_tables_idempotent [of open_Database empty_store]
  by (simp add: alice_store_def open_Database_def empty_store_def create_tables_open)

text \<open>
  After a successful \<open>initialize()\<close> the object and the server are in the state that
  the other operations assume, and a failed one with no pool created leaves the object
  without a pool.
\<close>

lemma initialize_ready:
  assumes "url = Some u" and "u \<noteq> []"
  shows "initialize url None db s = (db\<lparr>pool := Some PoolOpen\<rparr>, fst (create_tables (db\<lparr>pool := Some PoolOpen\<rparr>) s), Inr ())"
    and "ready (db\<lparr>pool := Some PoolOpen\<rparr>) (fst (create_tables (db\<lparr>pool := Some PoolOpen\<rparr>) s))"
  using assms by (simp_all add: initialize_def create_tables_open ready_def)

lemma initialize_no_url:
  "initialize None connect db s = (db, s, Inl (Exn ValueError ''SUPABASE_DB_URL not set in config.py''))"
  by (simp add: initialize_def)

subsection \<open>Order numbers and orders\<close>

lemma digit_val_digit: "digit_val (digit d) = Some (d mod 10)"
proof -
  have "d mod 10 < 10" by simp
  then have "d mod 10 \<in> {0, 1, 2, 3, 4, 5, 6, 7, 8, 9}"
    by simp arith
  then show ?thesis
    by (auto simp: digit_def digit_val_def)
qed

lemma decimal_value_snoc:
  "decimal_value (ds @ [c]) = 10 * decimal_value ds + (case digit_val c of None \<Rightarrow> 0 | Some v \<Rightarrow> v)"
  by (simp add: decimal_value_def)

lemma decimal_value_digits: "decimal_value (digits n) = n"
proof (induction n rule: digits.induct)
  case (1 n)
  show ?case
  proof (cases "n < 10")
    case True
    then show ?thesis
      by (subst digits.simps) (simp add: decimal_value_def digit_val_digit)
  next
    case False
    with 1 have "decimal_value (digits (n div 10)) = n div 10" by simp
    with False show ?thesis
      by (subst digits.simps) (simp add: decimal_value_snoc digit_val_digit)
  qed
qed

lemma decimal_value_zeros: "decimal_value (replicate k CHR ''0'' @ ds) = decimal_value ds"
proof -
  have "foldl (\<lambda>acc c. 10 * acc + (case digit_val c of None \<Rightarrow> 0 | Some v \<Rightarrow> v)) 0 (replicate k CHR ''0'') = 0"
    by (induction k) (simp_all add: digit_val_def)
  then show ?thesis by (simp add: decimal_value_def)
qed

lemma length_digits_le: "n < 10 ^ Suc k \<Longrightarrow> length (digits n) \<le> Suc k"
proof (induction k arbitrary: n)
  case 0
  then show ?case by (subst digits.simps) simp
next
  case (Suc k)
  show ?case
  proof (cases "n < 10")
    case True
    then show ?thesis by (subst digits.simps) simp
  next
    case False
    from Suc.prems have "n div 10 < 10 ^ Suc k" by (simp add: less_mult_imp_div_less mult.commute)
    from Suc.IH [OF this] False show ?thesis by (subst digits.simps) simp
  qed
qed

lemma length_digits_pos: "0 < length (digits n)"
  by (subst digits.simps) simp

lemma format_06d_nat:
  "format_06d (int n) = replicate (6 - length (digits n)) CHR ''0'' @ digits n"
  by (simp add: format_06d_def Let_def)

lemma format_06d_succ:
  "format_06d (int n + 1) = replicate (6 - length (digits (Suc n))) CHR ''0'' @ digits (Suc n)"
proof -
  have "int n + 1 = int (Suc n)" by simp
  then show ?thesis by (simp only: format_06d_nat)
qed

lemma get_next_order_number_open:
  "pool db = Some PoolOpen \<Longrightarrow> orders s = Some os \<Longrightarrow>
   get_next_order_number db s = (s, Inr (spec_order_number (Suc (length os))))"
  by (simp add: get_next_order_number_def acquire_def select_count_from_orders_def
      orders_table_def spec_order_number_def format_06d_succ)

lemma digits_1: "digits (Suc 0) = ''1''"
  by (subst digits.simps) (simp add: digit_def)

lemma digits_2: "digits (Suc (Suc 0)) = ''2''"
  by (subst digits.simps) (simp add: digit_def)

lemma and_then_Inr: "and_then m f = Inr y \<longleftrightarrow> (\<exists>x. m = Inr x \<and> f x = Inr y)"
  by (cases m) simp_all

lemma and_then_Inl: "and_then m f = Inl e \<longleftrightarrow> m = Inl e \<or> (\<exists>x. m = Inr x \<and> f x = Inl e)"
  by (cases m) simp_all

lemma subscripts_first_missing:
  "find (\<lambda>k. d k = None) ks = Some k \<Longrightarrow> subscripts d ks = Inl (Exn KeyError (squote k))"
proof (induction ks)
  case Nil
  then show ?case by simp
next
  case (Cons a ks)
  show ?case
  proof (cases "d a")
    case None
    with Cons.prems show ?thesis by (simp add: subscript_def)
  next
    case (Some v)
    with Cons.prems have "find (\<lambda>k. d k = None) ks = Some k" by simp
    from Cons.IH [OF this] Some show ?thesis by (simp add: subscript_def)
  qed
qed

lemma subscripts_all_present:
  "subscripts d ks = Inr vs \<Longrightarrow> map d ks = map Some vs"
proof (induction ks arbitrary: vs)
  case Nil
  then show ?case by simp
next
  case (Cons a ks)
  then show ?case
    by (auto simp: and_then_Inr subscript_def split: option.splits)
qed

lemma encode_order_args_telegram_id:
  "encode_order_args dec args = Inr p \<Longrightarrow> encode_integer 64 1 (args ! 0) = Inr (p_telegram_id p)"
  unfolding encode_order_args_def by (auto simp: and_then_Inr)

lemma not_null_Inr: "not_null c v = Inr x \<longleftrightarrow> v = Some x"
  by (simp add: not_null_def split: option.splits)

lemma orders_table_Inr: "orders_table s = Inr os \<longleftrightarrow> orders s = Some os"
  by (simp add: orders_table_def split: option.splits)

lemma encode_order_args_telegram_id':
  "encode_order_args dec args = Inr p \<Longrightarrow> p_telegram_id p = Some t \<Longrightarrow>
   encode_integer 64 1 (args ! 0) = Inr (Some t)"
  using encode_order_args_telegram_id by force

lemma insert_into_orders_last:
  assumes "insert_into_orders dec s args = Inr s'"
  shows "orders s' = Some (the (orders s) @ [last (the (orders s'))])
         \<and> orders s \<noteq> None
         \<and> s' = s\<lparr>orders := orders s', uuid_supply := Suc (uuid_supply s)\<rparr>
         \<and> encode_integer 64 1 (args ! 0) = Inr (Some (o_telegram_id (last (the (orders s')))))
         \<and> gender_check (o_gender (last (the (orders s'))))"
  using assms unfolding insert_into_orders_def
  by (auto simp: and_then_Inr orders_table_Inr not_null_Inr
      dest: encode_order_args_telegram_id' split: if_splits)

lemma insert_into_orders_Inr:
  assumes "insert_into_orders dec s args = Inr s'"
  shows "\<exists>os row. orders s = Some os
           \<and> s' = s\<lparr>orders := Some (os @ [row]), uuid_supply := Suc (uuid_supply s)\<rparr>
           \<and> encode_integer 64 1 (args ! 0) = Inr (Some (o_telegram_id row))
           \<and> gender_check (o_gender row)"
proof -
  note l = insert_into_orders_last [OF assms]
  from l obtain os where os: "orders s = Some os" by auto
  let ?row = "last (the (orders s'))"
  from l os have "s' = s\<lparr>orders := Some (os @ [?row]), uuid_supply := Suc (uuid_supply s)\<rparr>"
    by (metis option.sel)
  with l os show ?thesis by blast
qed


lemma create_order_Inr:
  "create_order dec db s od = (s', Inr ()) \<Longrightarrow>
   \<exists>args. subscripts od order_keys = Inr args \<and> insert_into_orders dec s args = Inr s'"
  by (auto simp: create_order_def and_then_Inr split: sum.splits)

text \<open>
  Claim C10. \<open>create_order\<close> reads the user's identifier from the key
  \<open>user_telegram_id\<close>, and with any of the eleven keys missing it fails with the
  \<open>KeyError\<close> of the first missing key, in the order of the argument list, and leaves
  the database as it was. The pool is open, as after \<open>initialize()\<close>.
\<close>

theorem create_order_missing_key:
  assumes "pool db = Some PoolOpen"
  shows "(\<forall>k \<in> set order_keys. order_data k = None \<longrightarrow>
            (\<exists>k' \<in> set order_keys. order_data k' = None
               \<and> find (\<lambda>k. order_data k = None) order_keys = Some k'
               \<and> create_order decimal_of_str db s order_data
                   = (s, Inl (Exn KeyError (squote k')))))
         \<and> (order_data ''user_telegram_id'' = None \<longrightarrow>
              create_order decimal_of_str db s order_data
                = (s, Inl (Exn KeyError (squote ''user_telegram_id''))))
         \<and> (\<forall>s'. create_order decimal_of_str db s order_data = (s', Inr ()) \<longrightarrow>
              (\<exists>v os row. order_data ''user_telegram_id'' = Some v
                 \<and> encode_integer 64 1 v = Inr (Some (o_telegram_id row))
                 \<and> orders s = Some os \<and> orders s' = Some (os @ [row])))"
proof (intro conjI allI ballI impI)
  fix k assume "k \<in> set order_keys" "order_data k = None"
  then obtain k' where f: "find (\<lambda>k. order_data k = None) order_keys = Some k'"
    by (cases "find (\<lambda>k. order_data k = None) order_keys") (auto simp: find_None_iff)
  then have "k' \<in> set order_keys" "order_data k' = None"
    by (auto simp: find_Some_iff)
  moreover have "create_order decimal_of_str db s order_data = (s, Inl (Exn KeyError (squote k')))"
    using assms subscripts_first_missing [OF f]
    by (simp add: create_order_def acquire_def)
  ultimately show "\<exists>k' \<in> set order_keys. order_data k' = None
               \<and> find (\<lambda>k. order_data k = None) order_keys = Some k'
               \<and> create_order decimal_of_str db s order_data
                   = (s, Inl (Exn KeyError (squote k')))"
    using f by blast
next
  assume "order_data ''user_telegram_id'' = None"
  then have "find (\<lambda>k. order_data k = None) order_keys = Some ''user_telegram_id''"
    by (simp add: order_keys_def)
  from subscripts_first_missing [OF this] assms
  show "create_order decimal_of_str db s order_data
          = (s, Inl (Exn KeyError (squote ''user_telegram_id'')))"
    by (simp add: create_order_def acquire_def)
next
  fix s' assume ok: "create_order decimal_of_str db s order_data = (s', Inr ())"
  from create_order_Inr [OF ok] obtain args where
    args: "subscripts order_data order_keys = Inr args"
    and ins: "insert_into_orders decimal_of_str s args = Inr s'" by blast
  from subscripts_all_present [OF args]
  have "order_data ''user_telegram_id'' = Some (args ! 0)"
    by (auto simp: order_keys_def)
  moreover from insert_into_orders_Inr [OF ins] obtain os row where
    "orders s = Some os" "orders s' = Some (os @ [row])"
    "encode_integer 64 1 (args ! 0) = Inr (Some (o_telegram_id row))"
    by auto
  ultimately show "\<exists>v os row. order_data ''user_telegram_id'' = Some v
                 \<and> encode_integer 64 1 v = Inr (Some (o_telegram_id row))
                 \<and> orders s = Some os \<and> orders s' = Some (os @ [row])"
    by blast
qed

theorem create_order_missing_key_witness:
  "pool open_Database = Some PoolOpen
   \<and> ''user_telegram_id'' \<in> set order_keys
   \<and> order_wrong_key ''user_telegram_id'' = None
   \<and> order_wrong_key ''telegram_id'' = Some (PyInt 42)
   \<and> create_order no_decimal open_Database alice_store order_wrong_key
       = (alice_store, Inl (Exn KeyError (squote ''user_telegram_id'')))
   \<and> ''gender'' \<in> set order_keys
   \<and> order_without_gender ''gender'' = None
   \<and> create_order no_decimal open_Database alice_store order_without_gender
       = (alice_store, Inl (Exn KeyError (squote ''gender'')))"
proof -
  have 1: "pool open_Database = Some PoolOpen" by (simp add: open_Database_def)
  have 2: "''gender'' \<in> set order_keys" "''user_telegram_id'' \<in> set order_keys"
    by (simp_all add: order_keys_def)
  have 3: "order_without_gender ''gender'' = None"
    "order_wrong_key ''user_telegram_id'' = None"
    "order_wrong_key ''telegram_id'' = Some (PyInt 42)"
    by (simp_all add: order_without_gender_def order_wrong_key_def order_male_def)
  have 4: "find (\<lambda>k. order_without_gender k = None) order_keys = Some ''gender''"
    by (simp add: order_keys_def order_without_gender_def)
  from create_order_missing_key [OF 1, of order_wrong_key no_decimal alice_store]
    create_order_missing_key [OF 1, of order_without_gender no_decimal alice_store]
  show ?thesis using 1 2 3 4 by auto
qed


text \<open>
  Claim C1. On an open pool, \<open>get_next_order_number()\<close> returns \<open>ORD-\<close> followed by the
  number of rows of \<open>orders\<close> plus one, in decimal, with zeros before it up to six digits:
  the digits after \<open>ORD-\<close> denote that number, and there are exactly six of them below a
  million. With no order it is \<open>ORD-000001\<close>; after one \<open>create_order\<close> has succeeded on
  the empty table it is \<open>ORD-000002\<close>. The state is not changed.
\<close>

theorem get_next_order_number_sequential:
  assumes "pool db = Some PoolOpen" and "orders s = Some os"
  shows "get_next_order_number db s = (s, Inr (spec_order_number (Suc (length os))))
         \<and> take 4 (spec_order_number (Suc (length os))) = ''ORD-''
         \<and> decimal_value (drop 4 (spec_order_number (Suc (length os)))) = Suc (length os)
         \<and> (Suc (length os) < 10 ^ 6 \<longrightarrow> length (spec_order_number (Suc (length os))) = 10)
         \<and> (os = [] \<longrightarrow> get_next_order_number db s = (s, Inr ''ORD-000001''))
         \<and> (\<forall>dec od s'. create_order dec db s od = (s', Inr ()) \<longrightarrow>
               get_next_order_number db s' = (s', Inr (spec_order_number (Suc (Suc (length os))))))
         \<and> (\<forall>dec od s'. os = [] \<and> create_order dec db s od = (s', Inr ()) \<longrightarrow>
               get_next_order_number db s' = (s', Inr ''ORD-000002''))"
proof -
  have next': "get_next_order_number db s' = (s', Inr (spec_order_number (Suc (Suc (length os)))))"
    if "create_order dec db s od = (s', Inr ())" for dec od s'
  proof -
    from create_order_Inr [OF that] obtain args where
      "insert_into_orders dec s args = Inr s'" by blast
    from insert_into_orders_Inr [OF this] assms(2) obtain row where
      "orders s' = Some (os @ [row])" by auto
    from get_next_order_number_open [OF assms(1) this] show ?thesis by simp
  qed
  have six: "length (spec_order_number (Suc (length os))) = 10" if "Suc (length os) < 10 ^ 6"
  proof -
    have "Suc (length os) < 10 ^ Suc 5" using that by simp
    from length_digits_le [OF this] show ?thesis
      by (simp add: spec_order_number_def)
  qed
  have "spec_order_number (Suc 0) = ''ORD-000001''"
    by (simp add: spec_order_number_def digits_1 eval_nat_numeral)
  moreover have "spec_order_number (Suc (Suc 0)) = ''ORD-000002''"
    by (simp add: spec_order_number_def digits_2 eval_nat_numeral)
  ultimately show ?thesis
    using get_next_order_number_open [OF assms] next' six
    by (auto simp: spec_order_number_def decimal_value_zeros decimal_value_digits)
qed

theorem get_next_order_number_sequential_witness:
  "pool open_Database = Some PoolOpen \<and> orders alice_store = Some []
   \<and> get_next_order_number open_Database alice_store = (alice_store, Inr ''ORD-000001'')
   \<and> create_order no_decimal open_Database alice_store order_male
       = (alice_store_1, Inr ())
   \<and> get_next_order_number open_Database alice_store_1 = (alice_store_1, Inr ''ORD-000002'')"
proof -
  have 1: "pool open_Database = Some PoolOpen" by (simp add: open_Database_def)
  have 2: "orders alice_store = Some []" by (simp add: alice_store_def)
  have 3: "create_order no_decimal open_Database alice_store order_male = (alice_store_1, Inr ())"
    by code_simp
  from get_next_order_number_sequential [OF 1 2] 1 2 3 show ?thesis by blast
qed

text \<open>
  Claim C6, at an input that the code stores against it: an order whose \<open>gender\<close> is
  \<open>None\<close> is accepted, and its row has no gender. The same order with \<open>cafe\<close> set to \<open>None\<close> is
  refused by the \<open>NOT NULL\<close> of that column, and with the gender \<open>X\<close> by the \<open>CHECK\<close>.
\<close>

theorem create_order_null_gender:
  "create_order no_decimal open_Database alice_store order_null_gender
     = (alice_store\<lparr>orders := Some [order_1\<lparr>o_gender := None\<rparr>], uuid_supply := 1\<rparr>, Inr ())
   \<and> class_of (projl (snd (create_order no_decimal open_Database alice_store
         (order_male(''cafe'' \<mapsto> PyNone))))) = NotNullViolationError
   \<and> class_of (projl (snd (create_order no_decimal open_Database alice_store
         (order_male(''gender'' \<mapsto> PyStr ''X''))))) = CheckViolationError"
  by code_simp

subsection \<open>User methods\<close>

lemma floor_rat_numeral_div [simp]:
  "\<lfloor>(numeral a :: rat) / numeral b\<rfloor> = numeral a div numeral b"
  using floor_divide_of_int_eq [of "numeral a" "numeral b", where ?'a = rat] by simp

lemma users_table_Inr: "users_table s = Inr us \<longleftrightarrow> users s = Some us"
  by (simp add: users_table_def split: option.splits)

lemma encode_int8_Inr: "encode_int8 i n = Inr t \<longleftrightarrow> int_range 64 n \<and> t = n"
  by (auto simp: encode_int8_def)

lemma acquire_open: "pool db = Some PoolOpen \<Longrightarrow> acquire db = Inr ()"
  by (simp add: acquire_def)

lemma no_row_filter:
  "telegram_id \<notin> u_telegram_id ` set us \<Longrightarrow> filter (\<lambda>r. u_telegram_id r = telegram_id) us = []"
  by (auto simp: filter_empty_conv)

text \<open>
  Claim C3. For every valid \<open>telegram_id\<close>, a value of the \<open>BIGINT\<close> key, that has no
  row in \<open>users\<close>, on an initialized database \<open>is_user_authorized\<close> returns false and
  \<open>get_user_balance\<close> returns 0.0; neither raises, neither changes the database.
\<close>

theorem unknown_user_defaults:
  assumes "pool db = Some PoolOpen" and "users s = Some us"
    and "int_range 64 telegram_id" and "telegram_id \<notin> u_telegram_id ` set us"
  shows "is_user_authorized db s telegram_id = (s, Inr False)
         \<and> get_user_balance db s telegram_id = (s, Inr (Fin 0))"
  using assms
  by (simp add: is_user_authorized_def get_user_balance_def select_1_from_users_def
      select_balance_from_users_def acquire_open users_table_def encode_int8_def no_row_filter)

theorem unknown_user_defaults_witness:
  "pool open_Database = Some PoolOpen \<and> users alice_store = Some [alice]
   \<and> int_range 64 7 \<and> 7 \<notin> u_telegram_id ` set [alice]
   \<and> is_user_authorized open_Database alice_store 7 = (alice_store, Inr False)
   \<and> get_user_balance open_Database alice_store 7 = (alice_store, Inr (Fin 0))"
proof -
  have 1: "pool open_Database = Some PoolOpen" by (simp add: open_Database_def)
  have 2: "users alice_store = Some [alice]" by (simp add: alice_store_def)
  have 3: "int_range 64 7" by (simp add: int_range_def)
  have 4: "7 \<notin> u_telegram_id ` set [alice]" by (simp add: alice_def)
  from unknown_user_defaults [OF 1 2 3 4] 1 2 3 4 show ?thesis by blast
qed

text \<open>
  An int outside the range of the key is no valid \<open>telegram_id\<close>: the driver refuses it
  with a \<open>DataError\<close> before any row is read.
\<close>

lemma reads_outside_key_range:
  "users alice_store = Some [alice] \<and> u_telegram_id alice \<noteq> 2 ^ 63
   \<and> is_user_authorized open_Database alice_store (2 ^ 63)
       = (alice_store, Inl (out_of_range 64 1))
   \<and> get_user_balance open_Database alice_store (2 ^ 63)
       = (alice_store, Inl (out_of_range 64 1))
   \<and> class_of (out_of_range 64 1) = DataError"
  by (simp add: is_user_authorized_def get_user_balance_def select_1_from_users_def
      select_balance_from_users_def acquire_def open_Database_def users_table_def
      encode_int8_def int_range_def alice_store_def alice_def out_of_range_def data_error_def)

subsection \<open>Updating a balance\<close>

lemma update_user_balance_cases:
  "(\<exists>e. update_user_balance db s telegram_id new_balance = (s, Inl e))
   \<or> (\<exists>us b. pool db = Some PoolOpen \<and> users s = Some us \<and> int_range 64 telegram_id
        \<and> to_numeric_10_2 (numeric_of_float new_balance) = Inr b
        \<and> update_user_balance db s telegram_id new_balance
            = (s\<lparr>users := Some (map (\<lambda>r. if u_telegram_id r = telegram_id
                                          then r\<lparr>u_balance := Some b\<rparr> else r) us)\<rparr>, Inr ()))"
proof (cases "and_then (acquire db) (\<lambda>conn. update_users_set_balance s new_balance telegram_id)")
  case (Inl e)
  then show ?thesis by (simp add: update_user_balance_def)
next
  case (Inr s')
  then have "pool db = Some PoolOpen"
    by (auto simp: and_then_Inr acquire_def split: option.splits pool_state.splits)
  moreover from Inr obtain us b where "users s = Some us" "int_range 64 telegram_id"
    "to_numeric_10_2 (numeric_of_float new_balance) = Inr b"
    "s' = s\<lparr>users := Some (map (\<lambda>r. if u_telegram_id r = telegram_id
                                     then r\<lparr>u_balance := Some b\<rparr> else r) us)\<rparr>"
    by (auto simp: and_then_Inr update_users_set_balance_def users_table_Inr encode_int8_Inr)
  ultimately show ?thesis using Inr by (auto simp: update_user_balance_def)
qed

text \<open>
  Claim C5, amended. \<open>update_user_balance\<close> changes nothing but the \<open>balance\<close> of the
  rows whose key is \<open>telegram_id\<close>: every other row, the other fields of those rows, the
  number and order of the rows and the \<open>orders\<close> table stay as they were, and a
  successful call has stored the new balance, rounded to the column's two decimals, in
  those rows. If no row has the key \<open>telegram_id\<close> and the new balance fits
  \<open>DECIMAL(10,2)\<close>, then the call returns normally and the database is unchanged
  (\<open>telegram_id\<close> a value of the \<open>BIGINT\<close> key, on an initialized database).
\<close>

theorem update_user_balance_frame:
  "orders (fst (update_user_balance db s telegram_id new_balance)) = orders s
   \<and> (\<forall>us. users s = Some us \<longrightarrow>
        (\<exists>us'. users (fst (update_user_balance db s telegram_id new_balance)) = Some us'
           \<and> length us' = length us
           \<and> (\<forall>i < length us.
                 u_telegram_id (us' ! i) = u_telegram_id (us ! i)
               \<and> u_name (us' ! i) = u_name (us ! i)
               \<and> u_user_type (us' ! i) = u_user_type (us ! i)
               \<and> u_created_at (us' ! i) = u_created_at (us ! i)
               \<and> (u_telegram_id (us ! i) \<noteq> telegram_id \<longrightarrow> us' ! i = us ! i)
               \<and> (u_telegram_id (us ! i) = telegram_id
                    \<and> snd (update_user_balance db s telegram_id new_balance) = Inr () \<longrightarrow>
                    to_numeric_10_2 (numeric_of_float new_balance) = Inr (the (u_balance (us' ! i)))
                    \<and> u_balance (us' ! i) \<noteq> None))))
   \<and> (\<forall>us. pool db = Some PoolOpen \<and> users s = Some us \<and> int_range 64 telegram_id
          \<and> (\<exists>b. to_numeric_10_2 (numeric_of_float new_balance) = Inr b)
          \<and> telegram_id \<notin> u_telegram_id ` set us \<longrightarrow>
          update_user_balance db s telegram_id new_balance = (s, Inr ()))"
proof -
  let ?U = "update_user_balance db s telegram_id new_balance"
  have last: "?U = (s, Inr ())"
    if "pool db = Some PoolOpen" "users s = Some us" "int_range 64 telegram_id"
      "to_numeric_10_2 (numeric_of_float new_balance) = Inr b"
      "telegram_id \<notin> u_telegram_id ` set us" for us b
  proof -
    from that(5) have "map (\<lambda>r. if u_telegram_id r = telegram_id
                                 then r\<lparr>u_balance := Some b\<rparr> else r) us = us"
      by (induction us) auto
    with that show ?thesis
      by (simp add: update_user_balance_def update_users_set_balance_def acquire_open
          users_table_def encode_int8_def)
  qed
  from update_user_balance_cases [of db s telegram_id new_balance]
  show ?thesis
  proof
    assume "\<exists>e. ?U = (s, Inl e)"
    then obtain e where "?U = (s, Inl e)" by blast
    with last show ?thesis by auto
  next
    assume "\<exists>us b. pool db = Some PoolOpen \<and> users s = Some us \<and> int_range 64 telegram_id
        \<and> to_numeric_10_2 (numeric_of_float new_balance) = Inr b
        \<and> ?U = (s\<lparr>users := Some (map (\<lambda>r. if u_telegram_id r = telegram_id
                                          then r\<lparr>u_balance := Some b\<rparr> else r) us)\<rparr>, Inr ())"
    then obtain us b where us: "users s = Some us"
      and b: "to_numeric_10_2 (numeric_of_float new_balance) = Inr b"
      and U: "?U = (s\<lparr>users := Some (map (\<lambda>r. if u_telegram_id r = telegram_id
                                          then r\<lparr>u_balance := Some b\<rparr> else r) us)\<rparr>, Inr ())"
      by blast
    from us b U last show ?thesis by auto
  qed
qed


theorem update_user_balance_frame_witness:
  "pool open_Database = Some PoolOpen \<and> users alice_store = Some [alice]
   \<and> int_range 64 7 \<and> 7 \<notin> u_telegram_id ` set [alice]
   \<and> to_numeric_10_2 (numeric_of_float (Fin (51 / 2))) = Inr (Hundredths 2550)
   \<and> update_user_balance open_Database alice_store 7 (Fin (51 / 2)) = (alice_store, Inr ())
   \<and> u_telegram_id alice = 42
   \<and> update_user_balance open_Database alice_store 42 (Fin (51 / 2))
       = (alice_store\<lparr>users := Some [alice\<lparr>u_balance := Some (Hundredths 2550)\<rparr>]\<rparr>, Inr ())"
proof -
  have 1: "pool open_Database = Some PoolOpen" by (simp add: open_Database_def)
  have 2: "users alice_store = Some [alice]" by (simp add: alice_store_def)
  have 3: "int_range 64 7" "int_range 64 42" by (simp_all add: int_range_def)
  have 4: "7 \<notin> u_telegram_id ` set [alice]" "u_telegram_id alice = 42" by (simp_all add: alice_def)
  have 5: "to_numeric_10_2 (numeric_of_float (Fin (51 / 2))) = Inr (Hundredths 2550)"
    by code_simp
  have 6: "update_user_balance open_Database alice_store 42 (Fin (51 / 2))
       = (alice_store\<lparr>users := Some [alice\<lparr>u_balance := Some (Hundredths 2550)\<rparr>]\<rparr>, Inr ())"
    using 1 2 3 4 5
    by (simp add: update_user_balance_def update_users_set_balance_def acquire_open
        users_table_def encode_int8_def)
  from update_user_balance_frame [of open_Database alice_store 7 "Fin (51 / 2)"] 1 2 3 4 5
  have "update_user_balance open_Database alice_store 7 (Fin (51 / 2)) = (alice_store, Inr ())"
    by blast
  with 1 2 3 4 5 6 show ?thesis by blast
qed

text \<open>
  Claim C5 as stated fails: no row has the key 7, the float \<open>1e8\<close> does not fit
  \<open>DECIMAL(10,2)\<close>, and the call raises the server's numeric overflow error instead
  of returning.
\<close>

theorem update_user_balance_overflow:
  "users alice_store = Some [alice] \<and> u_telegram_id alice \<noteq> 7 \<and> int_range 64 7
   \<and> update_user_balance open_Database alice_store 7 (Fin 100000000)
       = (alice_store, Inl numeric_overflow)
   \<and> class_of numeric_overflow = NumericValueOutOfRangeError"
  by (simp add: update_user_balance_def update_users_set_balance_def acquire_def
      open_Database_def users_table_def encode_int8_def int_range_def alice_store_def alice_def
      numeric_overflow_def round_half_away_def)

text \<open>
  An int outside the range of the key is refused by the driver here too.
\<close>

lemma update_outside_key_range:
  "users alice_store = Some [alice] \<and> u_telegram_id alice \<noteq> 2 ^ 63
   \<and> update_user_balance open_Database alice_store (2 ^ 63) (Fin (51 / 2))
       = (alice_store, Inl (out_of_range 64 2))
   \<and> class_of (out_of_range 64 2) = DataError"
  by (simp add: update_user_balance_def update_users_set_balance_def acquire_def
      open_Database_def users_table_def encode_int8_def int_range_def alice_store_def alice_def
      out_of_range_def data_error_def)

subsection \<open>Adding a user\<close>

lemma to_numeric_10_2_Inl: "to_numeric_10_2 a = Inl e \<Longrightarrow> e = numeric_overflow"
  by (cases a) (auto simp: Let_def split: if_splits)

lemma insert_into_users_Exception:
  "insert_into_users s telegram_id name' balance = Inl e \<Longrightarrow> is_Exception (class_of e)"
  by (auto simp: insert_into_users_def and_then_Inl users_table_def encode_int8_def
      check_text_def undefined_table_def out_of_range_def data_error_def invalid_byte_def
      unique_violation_def numeric_overflow_def
      dest!: to_numeric_10_2_Inl split: option.splits if_splits)

lemma add_user_body_Exception:
  "add_user_body db s telegram_id name' balance = Inl e \<Longrightarrow> is_Exception (class_of e)"
  by (auto simp: add_user_body_def and_then_Inl acquire_def insert_into_users_Exception
      split: option.splits pool_state.splits)

lemma insert_into_users_unique:
  "insert_into_users s telegram_id name' balance = Inl e \<Longrightarrow> class_of e = UniqueViolationError \<Longrightarrow>
   \<exists>us. users s = Some us \<and> telegram_id \<in> u_telegram_id ` set us"
  by (auto simp: insert_into_users_def and_then_Inl users_table_def encode_int8_def
      check_text_def undefined_table_def out_of_range_def data_error_def invalid_byte_def
      unique_violation_def numeric_overflow_def
      dest!: to_numeric_10_2_Inl split: option.splits if_splits)

lemma add_user_body_unique:
  "add_user_body db s telegram_id name' balance = Inl e \<Longrightarrow> class_of e = UniqueViolationError \<Longrightarrow>
   \<exists>us. users s = Some us \<and> telegram_id \<in> u_telegram_id ` set us"
  by (auto simp: add_user_body_def and_then_Inl acquire_def
      dest: insert_into_users_unique split: option.splits pool_state.splits)

lemma add_user_body_valid:
  assumes "pool db = Some PoolOpen" "users s = Some us" "int_range 64 telegram_id"
    "CHR 0x00 \<notin> set name'" "to_numeric_10_2 (numeric_of_float balance) = Inr b"
  shows "add_user_body db s telegram_id name' balance =
     (if telegram_id \<in> u_telegram_id ` set us then Inl (unique_violation ''users_pkey'')
      else Inr (s\<lparr>users := Some (us @ [\<lparr>u_telegram_id = telegram_id, u_name = name',
                  u_balance = Some b, u_user_type = None, u_created_at = now s\<rparr>])\<rparr>))"
  using assms
  by (simp add: add_user_body_def insert_into_users_def acquire_open users_table_def
      encode_int8_def check_text_def)

text \<open>
  Claim C2. \<open>add_user\<close> never raises: it always returns a pair. When the insert
  succeeds the pair is \<open>(True, "User added successfully")\<close>; when it raises the
  unique-violation error, which it does only if a row with that \<open>telegram_id\<close> exists,
  the pair is \<open>(False, "User already exists")\<close>; when it raises anything else the pair
  is \<open>False\<close> with the message of the exception. With valid arguments on an open pool,
  the user is reported as existing if a row has the key, and is added otherwise.
\<close>

theorem add_user_result:
  "(\<exists>s' ok msg. add_user db s telegram_id name' balance = (s', Inr (ok, msg)))
   \<and> (\<forall>s'. add_user_body db s telegram_id name' balance = Inr s' \<longrightarrow>
         add_user db s telegram_id name' balance = (s', Inr (True, ''User added successfully'')))
   \<and> (\<forall>e. add_user_body db s telegram_id name' balance = Inl e
            \<and> class_of e = UniqueViolationError \<longrightarrow>
         add_user db s telegram_id name' balance = (s, Inr (False, ''User already exists''))
         \<and> (\<exists>us. users s = Some us \<and> telegram_id \<in> u_telegram_id ` set us))
   \<and> (\<forall>e. add_user_body db s telegram_id name' balance = Inl e
            \<and> class_of e \<noteq> UniqueViolationError \<longrightarrow>
         add_user db s telegram_id name' balance = (s, Inr (False, str_exn e)))
   \<and> (\<forall>us b. pool db = Some PoolOpen \<and> users s = Some us \<and> int_range 64 telegram_id
            \<and> CHR 0x00 \<notin> set name'
            \<and> to_numeric_10_2 (numeric_of_float balance) = Inr b \<longrightarrow>
         (telegram_id \<in> u_telegram_id ` set us \<longrightarrow>
            add_user db s telegram_id name' balance = (s, Inr (False, ''User already exists'')))
       \<and> (telegram_id \<notin> u_telegram_id ` set us \<longrightarrow>
            add_user db s telegram_id name' balance =
              (s\<lparr>users := Some (us @ [\<lparr>u_telegram_id = telegram_id, u_name = name',
                   u_balance = Some b, u_user_type = None, u_created_at = now s\<rparr>])\<rparr>,
               Inr (True, ''User added successfully''))))"
proof (intro conjI allI impI)
  show "\<exists>s' ok msg. add_user db s telegram_id name' balance = (s', Inr (ok, msg))"
  proof (cases "add_user_body db s telegram_id name' balance")
    case (Inl e)
    with add_user_body_Exception [OF Inl] show ?thesis by (auto simp: add_user_def)
  next
    case (Inr s')
    then show ?thesis by (auto simp: add_user_def)
  qed
next
  fix s' assume "add_user_body db s telegram_id name' balance = Inr s'"
  then show "add_user db s telegram_id name' balance = (s', Inr (True, ''User added successfully''))"
    by (simp add: add_user_def)
next
  fix e assume "add_user_body db s telegram_id name' balance = Inl e \<and> class_of e = UniqueViolationError"
  then show "add_user db s telegram_id name' balance = (s, Inr (False, ''User already exists''))"
    by (simp add: add_user_def)
next
  fix e assume "add_user_body db s telegram_id name' balance = Inl e \<and> class_of e = UniqueViolationError"
  then show "\<exists>us. users s = Some us \<and> telegram_id \<in> u_telegram_id ` set us"
    using add_user_body_unique by blast
next
  fix e assume a: "add_user_body db s telegram_id name' balance = Inl e \<and> class_of e \<noteq> UniqueViolationError"
  then have "is_Exception (class_of e)" using add_user_body_Exception by blast
  with a show "add_user db s telegram_id name' balance = (s, Inr (False, str_exn e))"
    by (simp add: add_user_def)
next
  fix us b
  assume a: "pool db = Some PoolOpen \<and> users s = Some us \<and> int_range 64 telegram_id
            \<and> CHR 0x00 \<notin> set name'
            \<and> to_numeric_10_2 (numeric_of_float balance) = Inr b"
    and "telegram_id \<in> u_telegram_id ` set us"
  then show "add_user db s telegram_id name' balance = (s, Inr (False, ''User already exists''))"
    using add_user_body_valid [of db s us telegram_id name' balance b]
    by (simp add: add_user_def unique_violation_def)
next
  fix us b
  assume a: "pool db = Some PoolOpen \<and> users s = Some us \<and> int_range 64 telegram_id
            \<and> CHR 0x00 \<notin> set name'
            \<and> to_numeric_10_2 (numeric_of_float balance) = Inr b"
    and "telegram_id \<notin> u_telegram_id ` set us"
  then show "add_user db s telegram_id name' balance =
              (s\<lparr>users := Some (us @ [\<lparr>u_telegram_id = telegram_id, u_name = name',
                   u_balance = Some b, u_user_type = None, u_created_at = now s\<rparr>])\<rparr>,
               Inr (True, ''User added successfully''))"
    using add_user_body_valid [of db s us telegram_id name' balance b]
    by (simp add: add_user_def)
qed

theorem add_user_result_witness:
  "pool open_Database = Some PoolOpen \<and> users alice_store = Some [alice]
   \<and> int_range 64 42 \<and> int_range 64 7 \<and> CHR 0x00 \<notin> set ''Bob''
   \<and> to_numeric_10_2 (numeric_of_float (Fin 10)) = Inr (Hundredths 1000)
   \<and> 42 \<in> u_telegram_id ` set [alice] \<and> 7 \<notin> u_telegram_id ` set [alice]
   \<and> add_user open_Database alice_store 42 ''Bob'' (Fin 10)
       = (alice_store, Inr (False, ''User already exists''))
   \<and> add_user open_Database alice_store 7 ''Bob'' (Fin 10)
       = (alice_store\<lparr>users := Some [alice, bob]\<rparr>, Inr (True, ''User added successfully''))
   \<and> add_user_body init_Database alice_store 7 ''Bob'' (Fin 10)
       = Inl (Exn AttributeError (squote ''NoneType'' @ '' object has no attribute '' @ squote ''acquire''))
   \<and> add_user init_Database alice_store 7 ''Bob'' (Fin 10)
       = (alice_store, Inr (False, squote ''NoneType'' @ '' object has no attribute '' @ squote ''acquire''))"
proof -
  have 1: "pool open_Database = Some PoolOpen \<and> users alice_store = Some [alice]
     \<and> int_range 64 42 \<and> CHR 0x00 \<notin> set ''Bob''
     \<and> to_numeric_10_2 (numeric_of_float (Fin 10)) = Inr (Hundredths 1000)"
    "pool open_Database = Some PoolOpen \<and> users alice_store = Some [alice]
     \<and> int_range 64 7 \<and> CHR 0x00 \<notin> set ''Bob''
     \<and> to_numeric_10_2 (numeric_of_float (Fin 10)) = Inr (Hundredths 1000)"
    by (simp_all add: open_Database_def alice_store_def int_range_def round_half_away_def)
  have 2: "42 \<in> u_telegram_id ` set [alice]" "7 \<notin> u_telegram_id ` set [alice]"
    by (simp_all add: alice_def)
  have 3: "alice_store\<lparr>users := Some ([alice] @ [\<lparr>u_telegram_id = 7, u_name = ''Bob'',
       u_balance = Some (Hundredths 1000), u_user_type = None, u_created_at = now alice_store\<rparr>])\<rparr>
     = alice_store\<lparr>users := Some [alice, bob]\<rparr>"
    by (simp add: bob_def alice_store_def)
  have 4: "add_user_body init_Database alice_store 7 ''Bob'' (Fin 10)
       = Inl (Exn AttributeError (squote ''NoneType'' @ '' object has no attribute '' @ squote ''acquire''))"
    by (simp add: add_user_body_def acquire_def init_Database_def)
  from add_user_result [of open_Database alice_store 42 "''Bob''" "Fin 10"] 1 2
  have a: "add_user open_Database alice_store 42 ''Bob'' (Fin 10)
       = (alice_store, Inr (False, ''User already exists''))" by blast
  from add_user_result [of open_Database alice_store 7 "''Bob''" "Fin 10"] 1 2
  have b: "add_user open_Database alice_store 7 ''Bob'' (Fin 10)
       = (alice_store\<lparr>users := Some ([alice] @ [\<lparr>u_telegram_id = 7, u_name = ''Bob'',
       u_balance = Some (Hundredths 1000), u_user_type = None, u_created_at = now alice_store\<rparr>])\<rparr>,
         Inr (True, ''User added successfully''))" by blast
  from add_user_result [of init_Database alice_store 7 "''Bob''" "Fin 10"] 4
  have c: "add_user init_Database alice_store 7 ''Bob'' (Fin 10)
       = (alice_store, Inr (False, squote ''NoneType'' @ '' object has no attribute '' @ squote ''acquire''))"
    by (auto simp del: append.simps)
  from 1 2 3 4 a b c show ?thesis by simp
qed

subsection \<open>A balance written and read back\<close>

lemma round_half_even_div_error:
  assumes "0 < d"
  shows "\<bar>d * round_half_even_div x d - x\<bar> * 2 \<le> d"
proof -
  define q where "q = x div d"
  define r where "r = x mod d"
  have x: "x = d * q + r" by (simp add: q_def r_def)
  have r: "0 \<le> r" "r < d" using assms by (simp_all add: r_def)
  have "round_half_even_div x d = q \<and> 2 * r \<le> d \<or> round_half_even_div x d = q + 1 \<and> d \<le> 2 * r"
    unfolding round_half_even_div_def Let_def q_def [symmetric] r_def [symmetric] by auto
  then show ?thesis
  proof
    assume "round_half_even_div x d = q \<and> 2 * r \<le> d"
    with x r show ?thesis by simp
  next
    assume a: "round_half_even_div x d = q + 1 \<and> d \<le> 2 * r"
    then have "d * round_half_even_div x d - x = d - r" using x by (simp add: algebra_simps)
    with a r show ?thesis by simp
  qed
qed

lemma floor_log2_le: "floor_log2 a d \<le> bitlen a - bitlen d"
  by (simp add: floor_log2_def Let_def)

lemma bitlen_100: "bitlen 100 = 7"
  by code_simp

lemma bitlen_hundredths: "a < 10 ^ 10 \<Longrightarrow> bitlen a \<le> 34"
  by (simp add: bitlen_le_iff_power)

lemma nearest_double_hundredths:
  assumes "0 < a" and "a < 10 ^ 10"
  shows "\<exists>v. nearest_double a 100 = Fin v \<and> \<bar>v * 100 - of_int a\<bar> < 1 / 2 \<and> 0 < v"
proof -
  define e where "e = max (floor_log2 a 100 - 52) (- 1074)"
  define n where "n = nat (- e)"
  define m where "m = round_half_even_div (a * 2 ^ n) 100"
  define v :: rat where "v = of_int m / 2 ^ n"
  from floor_log2_le [of a 100] bitlen_hundredths [OF assms(2)]
  have "e \<le> - 25" by (simp add: e_def bitlen_100)
  then have e: "\<not> 0 \<le> e" and n: "25 \<le> n" by (simp_all add: n_def)
  from round_half_even_div_error [of 100 "a * 2 ^ n"]
  have "\<bar>100 * m - a * 2 ^ n\<bar> \<le> 50" by (simp add: m_def)
  then have "\<bar>of_int (100 * m - a * 2 ^ n) :: rat\<bar> \<le> 50"
    by (metis of_int_abs of_int_le_iff of_int_numeral)
  moreover have "v * 100 - of_int a = of_int (100 * m - a * 2 ^ n) / 2 ^ n"
    by (simp add: v_def field_simps)
  ultimately have "\<bar>v * 100 - of_int a\<bar> \<le> 50 / 2 ^ n"
    by (simp add: divide_right_mono)
  also have "(50 :: rat) / 2 ^ n \<le> 50 / 2 ^ 25"
  proof -
    have "(2 :: rat) ^ 25 \<le> 2 ^ n" using n by (intro power_increasing) simp_all
    then show ?thesis by (rule divide_left_mono) simp_all
  qed
  also have "\<dots> < 1 / 2" by simp
  finally have err: "\<bar>v * 100 - of_int a\<bar> < 1 / 2" .
  have "(1 :: rat) \<le> of_int a" using assms(1) by simp
  with err have pos: "0 < v" by linarith
  have "a < 10000000000" using assms(2) by simp
  then have "(of_int a :: rat) < 10000000000" by linarith
  with err have "v < 1000000000" by linarith
  also have "(1000000000 :: rat) < 2 ^ 1024" by simp
  finally have "v < 2 ^ 1024" .
  then have "nearest_double a 100 = Fin v"
    using e by (simp add: nearest_double_def Let_def e_def [symmetric] n_def [symmetric]
        m_def [symmetric] v_def)
  with err pos show ?thesis by blast
qed

lemma floor_half_rat [simp]: "\<lfloor>(1 :: rat) / 2\<rfloor> = 0"
  by (rule floor_unique) simp_all

lemma round_half_away_near:
  assumes "\<bar>x - of_int a\<bar> < 1 / 2" and "0 < x"
  shows "round_half_away x = a"
proof -
  have "\<lfloor>x + 1 / 2\<rfloor> = a"
    using assms(1) by (intro floor_unique) linarith+
  with assms(2) show ?thesis by (simp add: round_half_away_def)
qed

lemma round_half_away_minus: "round_half_away (- x) = - round_half_away x"
  by (cases "x = 0") (auto simp: round_half_away_def)

lemma decimal_round_trip:
  assumes "\<bar>h\<bar> < 10 ^ 10"
  shows "\<exists>q. float_of_decimal (Hundredths h) = Fin q \<and> to_numeric_10_2 (NumFin q) = Inr (Hundredths h)"
proof -
  consider "h = 0" | "0 < h" | "h < 0" by linarith
  then show ?thesis
  proof cases
    case 1
    then show ?thesis by (simp add: round_half_away_def)
  next
    case 2
    with assms nearest_double_hundredths [of h] obtain v where
      v: "nearest_double h 100 = Fin v" "\<bar>v * 100 - of_int h\<bar> < 1 / 2" "0 < v" by auto
    then have "round_half_away (v * 100) = h" by (intro round_half_away_near) simp_all
    with 2 v assms show ?thesis by simp
  next
    case 3
    with assms nearest_double_hundredths [of "- h"] obtain v where
      v: "nearest_double (- h) 100 = Fin v" "\<bar>v * 100 - of_int (- h)\<bar> < 1 / 2" "0 < v" by auto
    then have "round_half_away (v * 100) = - h" by (intro round_half_away_near) simp_all
    then have "round_half_away (- v * 100) = h"
      using round_half_away_minus [of "v * 100"] by simp
    with 3 v assms show ?thesis by simp
  qed
qed


lemma float_of_decimal_truthy:
  "(if decimal_truthy c then float_of_decimal c else Fin 0) = float_of_decimal c"
  by (cases c) simp_all

lemma add_user_body_Inr:
  assumes "add_user_body db s telegram_id name' balance = Inr s'"
  shows "\<exists>us c. pool db = Some PoolOpen \<and> users s = Some us \<and> int_range 64 telegram_id
           \<and> to_numeric_10_2 (numeric_of_float balance) = Inr c
           \<and> telegram_id \<notin> u_telegram_id ` set us
           \<and> s' = s\<lparr>users := Some (us @ [\<lparr>u_telegram_id = telegram_id, u_name = name',
                        u_balance = Some c, u_user_type = None, u_created_at = now s\<rparr>])\<rparr>"
  using assms
  by (auto simp: add_user_body_def insert_into_users_def and_then_Inr acquire_def
      users_table_Inr encode_int8_Inr check_text_def
      split: option.splits pool_state.splits if_splits)

lemma add_user_True:
  "add_user db s telegram_id name' balance = (s', Inr (True, msg)) \<Longrightarrow>
   add_user_body db s telegram_id name' balance = Inr s'"
  by (auto simp: add_user_def split: sum.splits if_splits)

lemma read_after_insert:
  assumes "pool db = Some PoolOpen" and "int_range 64 telegram_id"
    and "telegram_id \<notin> u_telegram_id ` set us"
    and "users s' = Some (us @ [\<lparr>u_telegram_id = telegram_id, u_name = n,
           u_balance = Some c, u_user_type = ut, u_created_at = t\<rparr>])"
  shows "is_user_authorized db s' telegram_id = (s', Inr True)"
    and "get_user_balance db s' telegram_id = (s', Inr (float_of_decimal c))"
  using assms
  by (simp_all add: is_user_authorized_def get_user_balance_def select_1_from_users_def
      select_balance_from_users_def acquire_open users_table_def encode_int8_def
      no_row_filter float_of_decimal_truthy)

text \<open>
  Claim C4, amended. If \<open>add_user(telegram_id, name, b)\<close> succeeds, then right afterwards
  \<open>is_user_authorized(telegram_id)\<close> returns true and \<open>get_user_balance(telegram_id)\<close>
  returns the float nearest to \<open>b\<close> rounded to the two decimals of the column. That is
  \<open>b\<close> itself whenever \<open>b\<close> is the float nearest to an amount of at most two decimals
  and less than ten digits in all (as 10.0 is), and whenever \<open>b\<close> is NaN.
\<close>

theorem add_user_then_read:
  assumes "add_user db s telegram_id name' b = (s', Inr (True, msg))"
  shows "is_user_authorized db s' telegram_id = (s', Inr True)
         \<and> (\<exists>c. to_numeric_10_2 (numeric_of_float b) = Inr c
                \<and> get_user_balance db s' telegram_id = (s', Inr (float_of_decimal c)))
         \<and> (\<forall>h. \<bar>h\<bar> < 10 ^ 10 \<and> b = float_of_decimal (Hundredths h) \<longrightarrow>
                get_user_balance db s' telegram_id = (s', Inr b))
         \<and> (b = NaN \<longrightarrow> get_user_balance db s' telegram_id = (s', Inr NaN))"
proof -
  from add_user_body_Inr [OF add_user_True [OF assms]] obtain us c where
    db: "pool db = Some PoolOpen" and r: "int_range 64 telegram_id"
    and c: "to_numeric_10_2 (numeric_of_float b) = Inr c"
    and new: "telegram_id \<notin> u_telegram_id ` set us"
    and s': "users s' = Some (us @ [\<lparr>u_telegram_id = telegram_id, u_name = name',
                        u_balance = Some c, u_user_type = None, u_created_at = now s\<rparr>])"
    by auto
  note read = read_after_insert [OF db r new s']
  have "get_user_balance db s' telegram_id = (s', Inr b)"
    if "\<bar>h\<bar> < 10 ^ 10" "b = float_of_decimal (Hundredths h)" for h
  proof -
    from decimal_round_trip [OF that(1)] obtain q where
      "float_of_decimal (Hundredths h) = Fin q" "to_numeric_10_2 (NumFin q) = Inr (Hundredths h)"
      by blast
    with that(2) c have "c = Hundredths h" by simp
    with read(2) that(2) show ?thesis by simp
  qed
  moreover have "get_user_balance db s' telegram_id = (s', Inr NaN)" if "b = NaN"
    using that c read(2) by auto
  ultimately show ?thesis using read c by blast
qed

theorem add_user_then_read_witness:
  "add_user open_Database alice_store 7 ''Bob'' (Fin 10)
     = (alice_store\<lparr>users := Some [alice, bob]\<rparr>, Inr (True, ''User added successfully''))
   \<and> \<bar>1000\<bar> < (10 :: int) ^ 10 \<and> Fin 10 = float_of_decimal (Hundredths 1000)
   \<and> is_user_authorized open_Database (alice_store\<lparr>users := Some [alice, bob]\<rparr>) 7
       = (alice_store\<lparr>users := Some [alice, bob]\<rparr>, Inr True)
   \<and> get_user_balance open_Database (alice_store\<lparr>users := Some [alice, bob]\<rparr>) 7
       = (alice_store\<lparr>users := Some [alice, bob]\<rparr>, Inr (Fin 10))"
proof -
  have 1: "add_user open_Database alice_store 7 ''Bob'' (Fin 10)
     = (alice_store\<lparr>users := Some [alice, bob]\<rparr>, Inr (True, ''User added successfully''))"
    by code_simp
  have 2: "\<bar>1000\<bar> < (10 :: int) ^ 10" by simp
  have 3: "Fin 10 = float_of_decimal (Hundredths 1000)" by code_simp
  from add_user_then_read [OF 1] 1 2 3 show ?thesis by blast
qed

text \<open>
  Claim C4 as stated fails: the float 0.125 is stored as 0.13, and what is read back is
  the float nearest to 0.13.
\<close>

theorem add_user_then_read_rounded:
  "add_user open_Database alice_store 7 ''Bob'' (Fin (1 / 8))
     = (alice_store\<lparr>users := Some [alice, bob\<lparr>u_balance := Some (Hundredths 13)\<rparr>]\<rparr>,
        Inr (True, ''User added successfully''))
   \<and> get_user_balance open_Database
         (alice_store\<lparr>users := Some [alice, bob\<lparr>u_balance := Some (Hundredths 13)\<rparr>]\<rparr>) 7
       = (alice_store\<lparr>users := Some [alice, bob\<lparr>u_balance := Some (Hundredths 13)\<rparr>]\<rparr>,
          Inr (Fin (1170935903116329 / 9007199254740992)))
   \<and> Fin (1170935903116329 / 9007199254740992) \<noteq> Fin (1 / 8)"
  by code_simp

subsection \<open>Configuration\<close>

lemma strip_Nil_iff: "strip s = [] \<longleftrightarrow> whitespace_only s"
proof -
  have "dropWhile is_space (rev (dropWhile is_space s)) = [] \<longleftrightarrow> dropWhile is_space s = []"
  proof
    assume a: "dropWhile is_space (rev (dropWhile is_space s)) = []"
    show "dropWhile is_space s = []"
    proof (rule ccontr)
      assume n: "dropWhile is_space s \<noteq> []"
      then have "\<not> is_space (hd (dropWhile is_space s))" by (rule hd_dropWhile)
      moreover from n have "hd (dropWhile is_space s) \<in> set (rev (dropWhile is_space s))" by simp
      ultimately show False using a by (auto simp: dropWhile_eq_Nil_conv)
    qed
  next
    assume "dropWhile is_space s = []"
    then show "dropWhile is_space (rev (dropWhile is_space s)) = []"
      by (simp del: dropWhile_eq_Nil_conv)
  qed
  moreover have "strip s = [] \<longleftrightarrow> dropWhile is_space (rev (dropWhile is_space s)) = []"
    by (simp add: strip_def)
  moreover have "dropWhile is_space s = [] \<longleftrightarrow> (\<forall>x\<in>set s. is_space x)"
    by (rule dropWhile_eq_Nil_conv)
  ultimately show ?thesis
    by (simp only: whitespace_only_def list_all_iff)
qed

lemma last_dropWhile: "dropWhile P xs \<noteq> [] \<Longrightarrow> last (dropWhile P xs) = last xs"
  by (induction xs) (auto split: if_splits)

lemma strip_strip: "strip (strip s) = strip s"
proof (cases "strip s = []")
  case True
  have "strip [] = []" by (simp add: strip_def)
  with True show ?thesis by simp
next
  case False
  define w where "w = rev (dropWhile is_space s)"
  define u where "u = dropWhile is_space w"
  have t: "strip s = rev u" by (simp add: strip_def u_def w_def)
  with False have u: "u \<noteq> []" by simp
  then have w: "w \<noteq> []" by (auto simp: u_def)
  then have d: "dropWhile is_space s \<noteq> []" by (simp add: w_def)
  have "hd (rev u) = last u" using u by (simp add: hd_rev)
  also have "\<dots> = last w" using u unfolding u_def by (rule last_dropWhile)
  also have "\<dots> = hd (dropWhile is_space s)" using d by (simp add: w_def last_rev)
  finally have "\<not> is_space (hd (rev u))" using hd_dropWhile [OF d] by simp
  then have a: "dropWhile is_space (rev u) = rev u"
    by (simp add: dropWhile_eq_self_iff)
  have b: "dropWhile is_space u = u" by (simp add: u_def)
  have "strip (rev u) = rev u" by (simp add: strip_def a b)
  then show ?thesis by (simp only: t)
qed

lemma py_int_strip: "py_int (strip s) = py_int s"
  by (simp add: py_int_def strip_strip)

lemma admin_comprehension_spec:
  "admin_comprehension xs =
     (if None \<in> py_int ` set (filter (\<lambda>e. \<not> whitespace_only e) xs)
      then Inl (Invalid_literal (strip (hd (filter (\<lambda>e. py_int e = None)
                                            (filter (\<lambda>e. \<not> whitespace_only e) xs)))))
      else Inr (map (\<lambda>e. the (py_int e)) (filter (\<lambda>e. \<not> whitespace_only e) xs)))"
proof (induction xs)
  case Nil
  then show ?case by simp
next
  case (Cons x xs)
  show ?case
  proof (cases "whitespace_only x")
    case True
    with Cons show ?thesis by (simp add: strip_Nil_iff)
  next
    case False
    show ?thesis
    proof (cases "py_int x")
      case None
      with False show ?thesis by (simp add: strip_Nil_iff py_int_strip)
    next
      case (Some n)
      with False Cons show ?thesis by (auto simp: strip_Nil_iff py_int_strip)
    qed
  qed
qed


text \<open>
  Claim C7, amended. After configuration load the channel mapping has exactly the five
  fixed logical channel names as keys, and each is associated with what \<open>os.getenv\<close>
  returns for its variable: the string of the variable, or \<open>None\<close> if it is not set,
  never a number. The admin list is the comma-separated \<open>ADMIN_IDS\<close> value (empty if
  the variable is not set) parsed to integers with empty and whitespace-only entries
  dropped; if one of the other entries is no integer literal, the load fails on it.
\<close>

theorem config_load:
  "dom (CHANNELS env) = set channel_names
   \<and> CHANNELS env ''female_main'' = Some (getenv env ''CHANNEL_FEMALE_MAIN'')
   \<and> CHANNELS env ''male_main'' = Some (getenv env ''CHANNEL_MALE_MAIN'')
   \<and> CHANNELS env ''female_tecno'' = Some (getenv env ''CHANNEL_FEMALE_TECNO'')
   \<and> CHANNELS env ''male_tecno'' = Some (getenv env ''CHANNEL_MALE_TECNO'')
   \<and> CHANNELS env ''agri'' = Some (getenv env ''CHANNEL_AGRI'')
   \<and> (\<forall>k n. CHANNELS env k \<noteq> Some (PyInt n))
   \<and> (None \<notin> set (spec_admin_ids (getenv_default env ''ADMIN_IDS'' [])) \<longrightarrow>
        ADMIN_IDS env = Inr (map the (spec_admin_ids (getenv_default env ''ADMIN_IDS'' []))))
   \<and> (None \<in> set (spec_admin_ids (getenv_default env ''ADMIN_IDS'' [])) \<longrightarrow>
        (\<exists>e \<in> set (spec_admin_entries (getenv_default env ''ADMIN_IDS'' [])).
           py_int e = None \<and> ADMIN_IDS env = Inl (Invalid_literal (strip e))))"
proof -
  let ?v = "getenv_default env ''ADMIN_IDS'' []"
  let ?es = "spec_admin_entries ?v"
  have keys: "dom (CHANNELS env) = set channel_names"
    by (auto simp: CHANNELS_def channel_names_def split: if_splits)
  have str: "CHANNELS env k \<noteq> Some (PyInt n)" for k n
    by (auto simp: CHANNELS_def getenv_def split: if_splits option.splits)
  have ok: "ADMIN_IDS env = Inr (map the (spec_admin_ids ?v))"
    if "None \<notin> set (spec_admin_ids ?v)"
    using that admin_comprehension_spec [of "split_comma ?v"]
    by (simp add: ADMIN_IDS_def spec_admin_ids_def spec_admin_entries_def comp_def)
  have bad: "\<exists>e \<in> set ?es. py_int e = None \<and> ADMIN_IDS env = Inl (Invalid_literal (strip e))"
    if "None \<in> set (spec_admin_ids ?v)"
  proof -
    let ?bad = "filter (\<lambda>e. py_int e = None) ?es"
    from that have "?bad \<noteq> []"
      by (force simp: spec_admin_ids_def filter_empty_conv)
    then have "hd ?bad \<in> set ?bad" by (rule hd_in_set)
    then have "hd ?bad \<in> set ?es" "py_int (hd ?bad) = None" by auto
    moreover have "ADMIN_IDS env = Inl (Invalid_literal (strip (hd ?bad)))"
      using that admin_comprehension_spec [of "split_comma ?v"]
      by (simp add: ADMIN_IDS_def spec_admin_ids_def spec_admin_entries_def)
    ultimately show ?thesis by blast
  qed
  show ?thesis
    using keys str ok bad by (simp add: CHANNELS_def)
qed

theorem config_load_witness:
  "None \<notin> set (spec_admin_ids (getenv_default example_env ''ADMIN_IDS'' []))
   \<and> spec_admin_entries (getenv_default example_env ''ADMIN_IDS'' []) = [''12'', '' 34'', ''5'']
   \<and> ADMIN_IDS example_env = Inr [12, 34, 5]
   \<and> None \<in> set (spec_admin_ids (getenv_default [''ADMIN_IDS'' \<mapsto> ''12,x''] ''ADMIN_IDS'' []))
   \<and> ADMIN_IDS [''ADMIN_IDS'' \<mapsto> ''12,x''] = Inl (Invalid_literal ''x'')
   \<and> ADMIN_IDS Map.empty = Inr []
   \<and> CHANNELS example_env ''male_tecno'' = Some (PyStr ''@tecno'')"
proof -
  have 1: "spec_admin_ids (getenv_default example_env ''ADMIN_IDS'' []) = [Some 12, Some 34, Some 5]"
    by code_simp
  have 2: "spec_admin_entries (getenv_default example_env ''ADMIN_IDS'' []) = [''12'', '' 34'', ''5'']"
    by code_simp
  have 3: "spec_admin_ids (getenv_default [''ADMIN_IDS'' \<mapsto> ''12,x''] ''ADMIN_IDS'' []) = [Some 12, None]"
    by code_simp
  have 4: "spec_admin_entries (getenv_default [''ADMIN_IDS'' \<mapsto> ''12,x''] ''ADMIN_IDS'' []) = [''12'', ''x'']"
    by code_simp
  have 5: "py_int ''12'' = Some 12" "strip ''x'' = ''x''" by code_simp+
  have 6: "spec_admin_ids (getenv_default Map.empty ''ADMIN_IDS'' []) = []"
    by code_simp
  have 7: "getenv example_env ''CHANNEL_MALE_TECNO'' = PyStr ''@tecno''"
    by (simp add: getenv_def example_env_def)
  from config_load [of example_env] 1 have a: "ADMIN_IDS example_env = Inr [12, 34, 5]" by simp
  from config_load [of "[''ADMIN_IDS'' \<mapsto> ''12,x'']"] 3 4 5
  have b: "ADMIN_IDS [''ADMIN_IDS'' \<mapsto> ''12,x''] = Inl (Invalid_literal ''x'')" by auto
  from config_load [of Map.empty] 6 have c: "ADMIN_IDS Map.empty = Inr []" by simp
  from config_load [of example_env] 7
  have d: "CHANNELS example_env ''male_tecno'' = Some (PyStr ''@tecno'')" by simp
  from 1 2 3 a b c d show ?thesis by simp
qed

text \<open>
  Claim C7 as stated fails: with \<open>CHANNEL_AGRI\<close> not set the channel \<open>agri\<close> is associated
  with \<open>None\<close>, and a channel whose variable is set is associated with its string, be it
  the digits of a number or not.
\<close>

theorem channels_not_numeric:
  "CHANNELS example_env ''agri'' = Some PyNone
   \<and> CHANNELS example_env ''male_tecno'' = Some (PyStr ''@tecno'')
   \<and> CHANNELS example_env ''female_main'' = Some (PyStr ''-1001'')"
  by (simp add: CHANNELS_def getenv_def example_env_def)

end
